theory Spec2Isabelle
  imports Complex_Main "HOL-Library.Log_Nat"
begin

section \<open>JavaScript numbers\<close>

text \<open>
  A JavaScript number is an IEEE 754 double: \<open>NaN\<close>, one of the two infinities, the
  negative zero, or a finite double, which is a rational number. The finite doubles are
  the rationals that the rounding to 53 significant bits (to the nearest, ties to the even
  mantissa, with the subnormal numbers from \<open>2 powi (- 1074)\<close>) maps to themselves and
  that lie below \<open>2 ^ 1024\<close>.
\<close>

text \<open>The exponent \<open>e\<close> of a positive rational: \<open>2 powi e \<le> r < 2 powi (e + 1)\<close>.\<close>

definition ilog2 :: "rat \<Rightarrow> int" where
  "ilog2 r = (let k = bitlen (fst (quotient_of r)) - bitlen (snd (quotient_of r))
              in if 2 powi k \<le> r then k else k - 1)"

definition roundHalfEven :: "rat \<Rightarrow> int" where
  "roundHalfEven q =
     (let f = \<lfloor>q\<rfloor>; d = q - of_int f
      in if d < 1 / 2 then f else if 1 / 2 < d then f + 1 else if even f then f else f + 1)"

text \<open>The distance of the doubles around \<open>r\<close>.\<close>

definition ulp :: "rat \<Rightarrow> rat" where
  "ulp r = 2 powi (max (ilog2 \<bar>r\<bar>) (- 1022) - 52)"

definition nearest :: "rat \<Rightarrow> rat" where
  "nearest r = (if r = 0 then 0 else sgn r * of_int (roundHalfEven (\<bar>r\<bar> / ulp r)) * ulp r)"

definition isDouble :: "rat \<Rightarrow> bool" where
  "isDouble r = (nearest r = r \<and> \<bar>r\<bar> < 2 ^ 1024)"

typedef double = "{r :: rat. isDouble r}"
  morphisms toRat Abs_double
  by (rule exI [of _ 0]) (simp add: isDouble_def nearest_def)

instantiation double :: zero
begin

definition zero_double :: double where
  "zero_double = Abs_double 0"

instance ..

end

instantiation double :: equal
begin

definition equal_double :: "double \<Rightarrow> double \<Rightarrow> bool" where
  "equal_double a b = (toRat a = toRat b)"

instance
  by standard (simp add: equal_double_def toRat_inject)

end

text \<open>The double with the value \<open>r\<close>, for a rational \<open>r\<close> that is a double.\<close>

definition D :: "rat \<Rightarrow> double" where
  "D r = (if isDouble r then Abs_double r else 0)"

text \<open>\<open>Num 0\<close> is the positive zero.\<close>

datatype jsnum = NaN | PosInf | NegInf | NegZero | Num double

text \<open>
  The double that an exact, real result \<open>r\<close> of an operation is rounded to: an infinity
  from \<open>2 ^ 1024\<close> on, and a zero with the sign of \<open>r\<close> when \<open>r\<close> is too small.
\<close>

definition fl :: "rat \<Rightarrow> jsnum" where
  "fl r =
     (if r = 0 then Num 0
      else let v = nearest r
           in if 2 ^ 1024 \<le> \<bar>v\<bar> then (if 0 < r then PosInf else NegInf)
              else if v = 0 then (if 0 < r then Num 0 else NegZero)
              else Num (D v))"

fun isNaN :: "jsnum \<Rightarrow> bool" where
  "isNaN NaN = True"
| "isNaN _ = False"

fun isInfinite :: "jsnum \<Rightarrow> bool" where
  "isInfinite PosInf = True"
| "isInfinite NegInf = True"
| "isInfinite _ = False"

fun isZero :: "jsnum \<Rightarrow> bool" where
  "isZero NegZero = True"
| "isZero (Num d) = (d = 0)"
| "isZero _ = False"

text \<open>The sign bit, and the value of a finite number.\<close>

fun isNegative :: "jsnum \<Rightarrow> bool" where
  "isNegative NegInf = True"
| "isNegative NegZero = True"
| "isNegative (Num d) = (toRat d < 0)"
| "isNegative _ = False"

fun finiteValue :: "jsnum \<Rightarrow> rat" where
  "finiteValue (Num d) = toRat d"
| "finiteValue _ = 0"

text \<open>The unary \<open>-\<close> and the operators \<open>+\<close>, \<open>-\<close>, \<open>*\<close>, \<open>/\<close> and \<open><\<close> on two numbers.\<close>

fun js_neg :: "jsnum \<Rightarrow> jsnum" where
  "js_neg NaN = NaN"
| "js_neg PosInf = NegInf"
| "js_neg NegInf = PosInf"
| "js_neg NegZero = Num 0"
| "js_neg (Num d) = (if d = 0 then NegZero else Num (D (- toRat d)))"

fun js_add :: "jsnum \<Rightarrow> jsnum \<Rightarrow> jsnum" where
  "js_add NaN _ = NaN"
| "js_add _ NaN = NaN"
| "js_add PosInf NegInf = NaN"
| "js_add NegInf PosInf = NaN"
| "js_add PosInf _ = PosInf"
| "js_add _ PosInf = PosInf"
| "js_add NegInf _ = NegInf"
| "js_add _ NegInf = NegInf"
| "js_add NegZero y = y"
| "js_add x NegZero = x"
| "js_add (Num a) (Num b) = (if toRat a + toRat b = 0 then Num 0 else fl (toRat a + toRat b))"

definition js_sub :: "jsnum \<Rightarrow> jsnum \<Rightarrow> jsnum" where
  "js_sub x y = js_add x (js_neg y)"

definition js_mul :: "jsnum \<Rightarrow> jsnum \<Rightarrow> jsnum" where
  "js_mul x y =
     (if isNaN x \<or> isNaN y then NaN
      else if (isInfinite x \<and> isZero y) \<or> (isZero x \<and> isInfinite y) then NaN
      else if isInfinite x \<or> isInfinite y
      then (if isNegative x \<noteq> isNegative y then NegInf else PosInf)
      else if isZero x \<or> isZero y
      then (if isNegative x \<noteq> isNegative y then NegZero else Num 0)
      else fl (finiteValue x * finiteValue y))"

definition js_div :: "jsnum \<Rightarrow> jsnum \<Rightarrow> jsnum" where
  "js_div x y =
     (if isNaN x \<or> isNaN y then NaN
      else if (isInfinite x \<and> isInfinite y) \<or> (isZero x \<and> isZero y) then NaN
      else if isInfinite x \<or> isZero y
      then (if isNegative x \<noteq> isNegative y then NegInf else PosInf)
      else if isInfinite y \<or> isZero x
      then (if isNegative x \<noteq> isNegative y then NegZero else Num 0)
      else fl (finiteValue x / finiteValue y))"

fun js_lt :: "jsnum \<Rightarrow> jsnum \<Rightarrow> bool" where
  "js_lt NaN _ = False"
| "js_lt _ NaN = False"
| "js_lt PosInf _ = False"
| "js_lt _ NegInf = False"
| "js_lt NegInf _ = True"
| "js_lt _ PosInf = True"
| "js_lt x y = (finiteValue x < finiteValue y)"

text \<open>The comparison \<open>0 <= x\<close>, false on \<open>NaN\<close>.\<close>

definition nonNegative :: "jsnum \<Rightarrow> bool" where
  "nonNegative x = (\<not> isNaN x \<and> \<not> js_lt x (Num 0))"

section \<open>Strings\<close>

text \<open>Strings are lists of characters (code units below 256).\<close>

subsection \<open>\<open>String.prototype.split\<close> with a one-character separator\<close>

fun split :: "char \<Rightarrow> string \<Rightarrow> string list" where
  "split c [] = [[]]"
| "split c (x # xs) =
     (if x = c then [] # split c xs
      else (case split c xs of [] \<Rightarrow> [[x]] | p # ps \<Rightarrow> (x # p) # ps))"

subsection \<open>\<open>parseInt(s, 10)\<close>\<close>

definition isWhiteSpace :: "char \<Rightarrow> bool" where
  "isWhiteSpace c = (c \<in> set [CHR 0x09, CHR 0x0A, CHR 0x0B, CHR 0x0C, CHR 0x0D, CHR 0x20, CHR 0xA0])"

definition isDigit :: "char \<Rightarrow> bool" where
  "isDigit c = (c \<in> set ''0123456789'')"

definition digitValue :: "char \<Rightarrow> nat" where
  "digitValue c = of_char c - 48"

definition digitsValue :: "string \<Rightarrow> nat" where
  "digitsValue ds = foldl (\<lambda>a c. 10 * a + digitValue c) 0 ds"

text \<open>
  \<open>parseInt\<close> skips leading white space, reads an optional sign and then the longest
  run of decimal digits; whatever follows is ignored. With no digit the result is \<open>NaN\<close>.
  Otherwise it is the double nearest to the integer that the digits denote, with the sign:
  a zero of that sign for the integer 0, and an infinity for an integer beyond the largest
  double.
\<close>

definition parseInt :: "string \<Rightarrow> jsnum" where
  "parseInt s =
     (let t = dropWhile isWhiteSpace s;
          neg = (case t of [] \<Rightarrow> False | c # _ \<Rightarrow> c = CHR ''-'');
          u = (case t of [] \<Rightarrow> [] | c # r \<Rightarrow> if c = CHR ''-'' \<or> c = CHR ''+'' then r else t);
          ds = takeWhile isDigit u
      in if ds = [] then NaN
         else if digitsValue ds = 0 then (if neg then NegZero else Num 0)
         else if neg then fl (- of_nat (digitsValue ds)) else fl (of_nat (digitsValue ds)))"

section \<open>Data model\<close>

text \<open>
  \<open>interface TimeEntry { startTime: string; endTime: string; hours?: number }\<close>:
  an absent \<open>hours\<close> is \<open>None\<close>.
\<close>

record TimeEntry =
  startTime :: string
  endTime :: string
  hours :: "jsnum option"

section \<open>Hour aggregation\<close>

text \<open>The callback of the \<open>reduce\<close> of direct-hours mode.\<close>

definition directStep :: "jsnum \<Rightarrow> TimeEntry \<Rightarrow> jsnum" where
  "directStep tot entry =
     (let h = (case hours entry of None \<Rightarrow> Num 0 | Some v \<Rightarrow> v)
      in js_add tot (if isNaN h then Num 0 else h))"

text \<open>The callback of the \<open>reduce\<close> of time-range mode; the empty string is falsy.\<close>

definition rangeStep :: "jsnum \<Rightarrow> TimeEntry \<Rightarrow> jsnum" where
  "rangeStep tot entry =
     (if startTime entry = [] \<or> endTime entry = [] then tot
      else
        let startParts = split CHR '':'' (startTime entry);
            endParts = split CHR '':'' (endTime entry)
        in if length startParts \<noteq> 2 \<or> length endParts \<noteq> 2 then tot
           else
             let startHour = parseInt (startParts ! 0);
                 startMin = parseInt (startParts ! 1);
                 endHour = parseInt (endParts ! 0);
                 endMin = parseInt (endParts ! 1)
             in if isNaN startHour \<or> isNaN startMin \<or> isNaN endHour \<or> isNaN endMin then tot
                else
                  let startMinutes = js_add (js_mul startHour (Num (D 60))) startMin;
                      endMinutes = js_add (js_mul endHour (Num (D 60))) endMin
                  in if js_lt endMinutes startMinutes then tot
                     else js_add tot (js_div (js_sub endMinutes startMinutes) (Num (D 60))))"

definition calculateDayHours :: "TimeEntry list \<Rightarrow> bool \<Rightarrow> jsnum" where
  "calculateDayHours entries useDirect =
     (if useDirect then foldl directStep (Num 0) entries
      else foldl rangeStep (Num 0) entries)"

section \<open>The time-range rule as the specification words it\<close>

text \<open>
  A well-formed \<open>HH:MM\<close> string has exactly two parts around one colon, each a non-empty
  run of decimal digits; its minutes are \<open>hour * 60 + minute\<close>.
\<close>

definition isNumeric :: "string \<Rightarrow> bool" where
  "isNumeric p = (p \<noteq> [] \<and> list_all isDigit p)"

definition minutesOf :: "string \<Rightarrow> int option" where
  "minutesOf s =
     (case split CHR '':'' s of
        [h, m] \<Rightarrow> if isNumeric h \<and> isNumeric m
                  then Some (int (digitsValue h) * 60 + int (digitsValue m)) else None
      | _ \<Rightarrow> None)"

text \<open>
  The contribution of one entry by the specification: the difference of the minutes over
  60 for two well-formed times in order, and 0 for every other entry.
\<close>

definition claimedContribution :: "TimeEntry \<Rightarrow> rat" where
  "claimedContribution e =
     (case (minutesOf (startTime e), minutesOf (endTime e)) of
        (Some s, Some t) \<Rightarrow> if s \<le> t then of_int (t - s) / 60 else 0
      | _ \<Rightarrow> 0)"

section \<open>Parsed JSON\<close>

text \<open>
  The values that \<open>JSON.parse\<close> returns. An object is the list of its keys and values,
  one value for each key. A number is a double; \<open>JSON.parse\<close> yields no \<open>NaN\<close>, but it
  does yield the negative zero (from \<open>-0\<close>) and the infinities (from \<open>1e999\<close>).
\<close>

datatype json =
    JNull
  | JBool bool
  | JNum jsnum
  | JStr string
  | JArr "json list"
  | JObj "(string \<times> json) list"

text \<open>
  What reading a property of a parsed value yields: \<open>undefined\<close>, a parsed value, or a
  built-in method that the value inherits from its prototype.
\<close>

datatype jsvalue = Undefined | Method | Parsed json

text \<open>
  Reading the property \<open>n\<close> of a parsed value other than \<open>null\<close>, for the names that the
  component reads (\<open>selectedMonday\<close>, \<open>weekData\<close>, \<open>date\<close>, \<open>entries\<close>, \<open>totalHours\<close>,
  \<open>useDirectHours\<close>, \<open>startTime\<close>, \<open>endTime\<close>, \<open>hours\<close>): an object has its own keys, an
  array inherits the method \<open>entries\<close> of \<open>Array.prototype\<close>, and no other of these names is
  a property of an array, a string, a number or a boolean. Reading a property of \<open>null\<close>
  throws, which every caller below tests first.
\<close>

fun property :: "string \<Rightarrow> json \<Rightarrow> jsvalue" where
  "property n (JObj kvs) = (case map_of kvs n of None \<Rightarrow> Undefined | Some v \<Rightarrow> Parsed v)"
| "property n (JArr xs) = (if n = ''entries'' then Method else Undefined)"
| "property n _ = Undefined"

text \<open>The values that \<open>??\<close> replaces: \<open>undefined\<close> and \<open>null\<close>.\<close>

fun nullish :: "jsvalue \<Rightarrow> bool" where
  "nullish Undefined = True"
| "nullish (Parsed JNull) = True"
| "nullish _ = False"

text \<open>
  Falsy values: \<open>undefined\<close>, \<open>null\<close>, \<open>false\<close>, the zeros, \<open>NaN\<close> and the empty string.
\<close>

fun truthy :: "jsvalue \<Rightarrow> bool" where
  "truthy Undefined = False"
| "truthy Method = True"
| "truthy (Parsed JNull) = False"
| "truthy (Parsed (JBool b)) = b"
| "truthy (Parsed (JNum n)) = (\<not> isZero n \<and> \<not> isNaN n)"
| "truthy (Parsed (JStr s)) = (s \<noteq> [])"
| "truthy (Parsed _) = True"

text \<open>
  The conversion of a value to a primitive, which \<open>new Date(v)\<close> and \<open>parseFloat(v)\<close>
  begin with, throws a \<open>TypeError\<close> on an object that has a key \<open>toString\<close> of its own: the
  value of the key, being parsed data, is no function, and the inherited \<open>valueOf\<close> yields
  no primitive. The conversion of an array joins the conversions of its elements, \<open>null\<close>
  apart, so it throws when one of them does.
\<close>

fun toStringThrows :: "json \<Rightarrow> bool" where
  "toStringThrows (JObj kvs) = (''toString'' \<in> set (map fst kvs))"
| "toStringThrows (JArr xs) = list_ex toStringThrows xs"
| "toStringThrows _ = False"

fun toPrimitiveThrows :: "jsvalue \<Rightarrow> bool" where
  "toPrimitiveThrows (Parsed v) = toStringThrows v"
| "toPrimitiveThrows _ = False"

text \<open>
  What a piece of code that handles parsed data of type \<open>any\<close> comes to: it throws, or it
  runs through with a value outside the declared interfaces \<open>TimeEntry\<close> and \<open>DayEntry\<close>
  (a number where a string is declared, \<open>null\<close> where a number is declared, an unknown
  property that is copied along), which the records of this theory cannot hold, or it
  yields a value of the interfaces.
\<close>

datatype 'a result = Throw | Foreign | Ok 'a

text \<open>
  The results of a \<open>map\<close> over an array: one throwing callback makes the whole \<open>map\<close>
  throw, whatever the other elements are.
\<close>

fun collect :: "'a result list \<Rightarrow> 'a list result" where
  "collect [] = Ok []"
| "collect (r # rs) =
     (case r of
        Throw \<Rightarrow> Throw
      | Foreign \<Rightarrow> (case collect rs of Throw \<Rightarrow> Throw | _ \<Rightarrow> Foreign)
      | Ok x \<Rightarrow> (case collect rs of Throw \<Rightarrow> Throw | Foreign \<Rightarrow> Foreign | Ok xs \<Rightarrow> Ok (x # xs)))"

section \<open>Dates\<close>

text \<open>
  A \<open>Date\<close> object holds a time value, the milliseconds since 1970-01-01 00:00 UTC, or
  \<open>NaN\<close> (the Invalid Date). A time value is at most \<open>maxTime\<close> in absolute value.
\<close>

datatype Date = InvalidDate | Date int

section \<open>Built-in functions\<close>

text \<open>
  The built-ins of the JavaScript engine that the component calls are parameters:
  \<^item> \<open>jsonParse\<close> is \<open>JSON.parse\<close>, \<open>None\<close> when it throws a \<open>SyntaxError\<close>;
  \<^item> \<open>jsonStringify\<close> is \<open>JSON.stringify(v)\<close> and \<open>jsonStringifyPretty\<close> is
    \<open>JSON.stringify(v, null, 2)\<close>, on the JSON value that \<open>v\<close> serialises as;
  \<^item> \<open>parseFloatOf\<close> is \<open>parseFloat\<close> on a string;
  \<^item> \<open>arrayToString\<close> is the conversion of an array to a string, where it does not throw;
  \<^item> \<open>isoString\<close> is \<open>toISOString\<close> of a valid date;
  \<^item> \<open>dateOf\<close> is \<open>new Date(v)\<close> for a value whose conversion to a primitive does not
    throw;
  \<^item> \<open>numberToString\<close> is \<open>toString\<close> of a number;
  \<^item> \<open>currentTime\<close> is the time value of \<open>new Date()\<close>;
  \<^item> \<open>localTZA t isUTC\<close> is the offset of the local time zone in milliseconds, at the
    time value \<open>t\<close> if \<open>isUTC\<close> and at the local time \<open>t\<close> otherwise.
\<close>

record Builtins =
  jsonParse :: "string \<Rightarrow> json option"
  jsonStringify :: "json \<Rightarrow> string"
  jsonStringifyPretty :: "json \<Rightarrow> string"
  parseFloatOf :: "string \<Rightarrow> jsnum"
  arrayToString :: "json list \<Rightarrow> string"
  isoString :: "int \<Rightarrow> string"
  dateOf :: "jsvalue \<Rightarrow> Date"
  numberToString :: "jsnum \<Rightarrow> string"
  currentTime :: int
  localTZA :: "int \<Rightarrow> bool \<Rightarrow> int"

text \<open>\<open>new Date(v)\<close> for a parsed value, a method or \<open>undefined\<close>.\<close>

definition newDate :: "Builtins \<Rightarrow> jsvalue \<Rightarrow> Date result" where
  "newDate B v = (if toPrimitiveThrows v then Throw else Ok (dateOf B v))"

section \<open>Date arithmetic\<close>

definition maxTime :: int where
  "maxTime = 8640000000000000"

text \<open>\<open>TimeClip\<close>: a time value out of range makes the Invalid Date.\<close>

definition TimeClip :: "int \<Rightarrow> Date" where
  "TimeClip t = (if \<bar>t\<bar> \<le> maxTime then Date t else InvalidDate)"

text \<open>
  The component reads and sets its dates in local time (\<open>getDay\<close>, \<open>getDate\<close>, \<open>setDate\<close>,
  \<open>setHours\<close>): \<open>LocalTime\<close> turns a time value into local time, and \<open>UTC\<close> a local time
  into a time value.
\<close>

definition LocalTime :: "Builtins \<Rightarrow> int \<Rightarrow> int" where
  "LocalTime B t = t + localTZA B t True"

definition UTC :: "Builtins \<Rightarrow> int \<Rightarrow> int" where
  "UTC B t = t - localTZA B t False"

definition msPerDay :: int where
  "msPerDay = 86400000"

definition Day :: "int \<Rightarrow> int" where
  "Day t = t div msPerDay"

definition TimeWithinDay :: "int \<Rightarrow> int" where
  "TimeWithinDay t = t mod msPerDay"

text \<open>The day of the week, Sunday is 0; 1970-01-01 was a Thursday.\<close>

definition WeekDay :: "int \<Rightarrow> int" where
  "WeekDay t = (Day t + 4) mod 7"

text \<open>The day of the month, 1 to 31, of the proleptic Gregorian calendar.\<close>

definition DateFromTime :: "int \<Rightarrow> int" where
  "DateFromTime t =
     (let z = Day t + 719468;
          era = z div 146097;
          doe = z - era * 146097;
          yoe = (doe - doe div 1460 + doe div 36524 - doe div 146096) div 365;
          doy = doe - (365 * yoe + yoe div 4 - yoe div 100);
          mp = (5 * doy + 2) div 153
      in doy - (153 * mp + 2) div 5 + 1)"

text \<open>\<open>getDay()\<close> and \<open>getDate()\<close> of a valid date with the time value \<open>t\<close>.\<close>

definition getDay :: "Builtins \<Rightarrow> int \<Rightarrow> int" where
  "getDay B t = WeekDay (LocalTime B t)"

definition getDate :: "Builtins \<Rightarrow> int \<Rightarrow> int" where
  "getDate B t = DateFromTime (LocalTime B t)"

text \<open>
  \<open>setDate(n)\<close> on a valid date keeps the local time within the day and moves to day \<open>n\<close>
  of the current month, counting on into the next (or back into the previous) months when
  \<open>n\<close> is out of the month's range: the first of the month is the day
  \<open>Day lt - (DateFromTime lt - 1)\<close>. The new local time is turned into a time value and
  clipped.
\<close>

definition setDate :: "Builtins \<Rightarrow> int \<Rightarrow> int \<Rightarrow> Date" where
  "setDate B t n =
     (let lt = LocalTime B t
      in TimeClip (UTC B ((Day lt - (DateFromTime lt - 1) + (n - 1)) * msPerDay + TimeWithinDay lt)))"

text \<open>\<open>setHours(0, 0, 0, 0)\<close> on a valid date.\<close>

definition setHoursZero :: "Builtins \<Rightarrow> int \<Rightarrow> Date" where
  "setHoursZero B t = TimeClip (UTC B (Day (LocalTime B t) * msPerDay))"

text \<open>\<open>new Date(d)\<close> for a date \<open>d\<close>.\<close>

definition copyDate :: "Date \<Rightarrow> Date" where
  "copyDate d = (case d of InvalidDate \<Rightarrow> InvalidDate | Date t \<Rightarrow> TimeClip t)"

text \<open>
  \<open>getMonday\<close>. On the Invalid Date every getter returns \<open>NaN\<close> and every setter leaves
  the date invalid.
\<close>

definition getMonday :: "Builtins \<Rightarrow> Date \<Rightarrow> Date" where
  "getMonday B d =
     (case copyDate d of
        InvalidDate \<Rightarrow> InvalidDate
      | Date t \<Rightarrow>
          let dayOfWeek = getDay B t;
              diff = getDate B t - dayOfWeek + (if dayOfWeek = 0 then - 6 else 1)
          in (case setDate B t diff of
                InvalidDate \<Rightarrow> InvalidDate
              | Date u \<Rightarrow> setHoursZero B u))"

text \<open>\<open>const date = new Date(monday); date.setDate(monday.getDate() + i)\<close>.\<close>

definition dayOfWeekDate :: "Builtins \<Rightarrow> Date \<Rightarrow> nat \<Rightarrow> Date" where
  "dayOfWeekDate B monday i =
     (case monday of
        InvalidDate \<Rightarrow> InvalidDate
      | Date t \<Rightarrow>
          (case copyDate monday of
             InvalidDate \<Rightarrow> InvalidDate
           | Date u \<Rightarrow> setDate B u (getDate B t + int i)))"

section \<open>Days and weeks\<close>

text \<open>
  \<open>interface DayEntry { date: Date; entries: TimeEntry[]; totalHours: number;
  useDirectHours: boolean }\<close>. Every total that the component computes is a number,
  \<open>Some n\<close>; the import copies the \<open>totalHours\<close> of the file as it stands there, so
  after the import of a file without it the field is absent: \<open>None\<close>.
\<close>

record DayEntry =
  date :: Date
  entries :: "TimeEntry list"
  totalHours :: "jsnum option"
  useDirectHours :: bool

text \<open>\<open>Array.prototype.map\<close> and \<open>filter\<close> with the index passed to the callback.\<close>

fun mapIndexed :: "('a \<Rightarrow> nat \<Rightarrow> 'b) \<Rightarrow> nat \<Rightarrow> 'a list \<Rightarrow> 'b list" where
  "mapIndexed f i [] = []"
| "mapIndexed f i (x # xs) = f x i # mapIndexed f (Suc i) xs"

fun filterIndexed :: "('a \<Rightarrow> nat \<Rightarrow> bool) \<Rightarrow> nat \<Rightarrow> 'a list \<Rightarrow> 'a list" where
  "filterIndexed p i [] = []"
| "filterIndexed p i (x # xs) =
     (if p x i then x # filterIndexed p (Suc i) xs else filterIndexed p (Suc i) xs)"

text \<open>The blank entry \<open>{ startTime: "", endTime: "", hours: 0 }\<close>.\<close>

definition emptyEntry :: TimeEntry where
  "emptyEntry = \<lparr>startTime = [], endTime = [], hours = Some (Num 0)\<rparr>"

datatype Field = StartTimeField | EndTimeField | HoursField

text \<open>
  \<open>parseFloat(value) || 0\<close>: \<open>NaN\<close> and the two zeros are falsy. \<open>parseFloat\<close> is the
  built-in, a parameter here.
\<close>

definition orZero :: "jsnum \<Rightarrow> jsnum" where
  "orZero v = (if isNaN v \<or> isZero v then Num 0 else v)"

definition updateEntry :: "(string \<Rightarrow> jsnum) \<Rightarrow> Field \<Rightarrow> string \<Rightarrow> TimeEntry \<Rightarrow> TimeEntry" where
  "updateEntry parseFloat field v entry =
     (case field of
        HoursField \<Rightarrow> entry\<lparr>hours := Some (orZero (parseFloat v))\<rparr>
      | StartTimeField \<Rightarrow> entry\<lparr>startTime := v\<rparr>
      | EndTimeField \<Rightarrow> entry\<lparr>endTime := v\<rparr>)"

definition handleTimeChange ::
  "(string \<Rightarrow> jsnum) \<Rightarrow> nat \<Rightarrow> nat \<Rightarrow> Field \<Rightarrow> string \<Rightarrow> DayEntry list \<Rightarrow> DayEntry list" where
  "handleTimeChange parseFloat dayIndex entryIndex field v prevWeekData =
     mapIndexed (\<lambda>day dIndex.
       if dIndex = dayIndex then
         let updatedEntries = mapIndexed (\<lambda>entry eIndex.
               if eIndex = entryIndex then updateEntry parseFloat field v entry else entry)
               0 (entries day)
         in day\<lparr>entries := updatedEntries,
                 totalHours := Some (calculateDayHours updatedEntries (useDirectHours day))\<rparr>
       else day) 0 prevWeekData"

definition toggleInputMode :: "nat \<Rightarrow> DayEntry list \<Rightarrow> DayEntry list" where
  "toggleInputMode dayIndex prevWeekData =
     mapIndexed (\<lambda>day dIndex.
       if dIndex = dayIndex then
         let newUseDirectHours = \<not> useDirectHours day
         in day\<lparr>useDirectHours := newUseDirectHours,
                 totalHours := Some (calculateDayHours (entries day) newUseDirectHours)\<rparr>
       else day) 0 prevWeekData"

definition addTimeEntry :: "nat \<Rightarrow> DayEntry list \<Rightarrow> DayEntry list" where
  "addTimeEntry dayIndex prevWeekData =
     mapIndexed (\<lambda>day dIndex.
       if dIndex = dayIndex then day\<lparr>entries := entries day @ [emptyEntry]\<rparr>
       else day) 0 prevWeekData"

definition deleteTimeEntry :: "nat \<Rightarrow> nat \<Rightarrow> DayEntry list \<Rightarrow> DayEntry list" where
  "deleteTimeEntry dayIndex entryIndex prevWeekData =
     mapIndexed (\<lambda>day dIndex.
       if dIndex = dayIndex then
         let updatedEntries = filterIndexed (\<lambda>_ eIndex. eIndex \<noteq> entryIndex) 0 (entries day)
         in day\<lparr>entries := updatedEntries,
                 totalHours := Some (calculateDayHours updatedEntries (useDirectHours day))\<rparr>
       else day) 0 prevWeekData"

text \<open>
  The data-model invariant: the stored total of a day is \<open>calculateDayHours\<close> of its
  entries and mode.
\<close>

definition dayInvariant :: "DayEntry \<Rightarrow> bool" where
  "dayInvariant day = (totalHours day = Some (calculateDayHours (entries day) (useDirectHours day)))"

section \<open>The Monday of a week as the specification words it\<close>

text \<open>
  The number of days, 0 back to -6, from the day of the local time \<open>t\<close> to the Monday of
  its week from Monday to Sunday; and, in a time zone with the constant offset \<open>c\<close>, the
  time value of the local midnight that begins this Monday.
\<close>

definition mondayOffset :: "int \<Rightarrow> int" where
  "mondayOffset t = (if WeekDay t = 0 then - 6 else 1) - WeekDay t"

definition weekStart :: "int \<Rightarrow> int \<Rightarrow> int" where
  "weekStart c t = (Day (t + c) + mondayOffset (t + c)) * msPerDay - c"

section \<open>Serialisation of the week\<close>

text \<open>
  What \<open>JSON.stringify\<close> makes of the values of the component: \<open>NaN\<close> and the
  infinities become \<open>null\<close>, the negative zero is written as \<open>0\<close>, a date becomes its
  ISO string and the Invalid Date \<open>null\<close>, an absent property is left out. The properties
  are in the order in which the component writes them when it builds a week.
\<close>

fun numToJSON :: "jsnum \<Rightarrow> json" where
  "numToJSON (Num d) = JNum (Num d)"
| "numToJSON NegZero = JNum (Num 0)"
| "numToJSON _ = JNull"

definition dateToJSON :: "Builtins \<Rightarrow> Date \<Rightarrow> json" where
  "dateToJSON B d = (case d of InvalidDate \<Rightarrow> JNull | Date t \<Rightarrow> JStr (isoString B t))"

definition entryToJSON :: "TimeEntry \<Rightarrow> json" where
  "entryToJSON e =
     JObj ([(''startTime'', JStr (startTime e)), (''endTime'', JStr (endTime e))]
           @ (case hours e of None \<Rightarrow> [] | Some n \<Rightarrow> [(''hours'', numToJSON n)]))"

definition dayToJSON :: "Builtins \<Rightarrow> DayEntry \<Rightarrow> json" where
  "dayToJSON B d =
     JObj ([(''date'', dateToJSON B (date d)),
            (''entries'', JArr (map entryToJSON (entries d)))]
           @ (case totalHours d of None \<Rightarrow> [] | Some n \<Rightarrow> [(''totalHours'', numToJSON n)])
           @ [(''useDirectHours'', JBool (useDirectHours d))])"

definition weekToJSON :: "Builtins \<Rightarrow> DayEntry list \<Rightarrow> json" where
  "weekToJSON B week = JArr (map (dayToJSON B) week)"

section \<open>The local storage and the state of the component\<close>

text \<open>\<open>localStorage\<close>: keys with their values, each key once.\<close>

type_synonym storage = "(string \<times> string) list"

definition getLocalStorage :: "storage \<Rightarrow> string \<Rightarrow> string option" where
  "getLocalStorage st key = map_of st key"

definition removeLocalStorage :: "string \<Rightarrow> storage \<Rightarrow> storage" where
  "removeLocalStorage key st = filter (\<lambda>kv. fst kv \<noteq> key) st"

definition setLocalStorage :: "string \<Rightarrow> string \<Rightarrow> storage \<Rightarrow> storage" where
  "setLocalStorage key v st = removeLocalStorage key st @ [(key, v)]"

definition TIMESHEET_PREFIX :: string where
  "TIMESHEET_PREFIX = ''timesheet-data-''"

definition WAGE_KEY :: string where
  "WAGE_KEY = ''timesheet-hourly-wage''"

definition startsWith :: "string \<Rightarrow> string \<Rightarrow> bool" where
  "startsWith s p = (take (length p) s = p)"

text \<open>
  \<open>getLocalStorageKey\<close>: \<open>toISOString\<close> throws a \<open>RangeError\<close> on the Invalid Date, here
  \<open>None\<close>.
\<close>

definition getLocalStorageKey :: "Builtins \<Rightarrow> Date \<Rightarrow> string option" where
  "getLocalStorageKey B monday =
     (case monday of
        InvalidDate \<Rightarrow> None
      | Date t \<Rightarrow> Some (TIMESHEET_PREFIX @ (split CHR ''T'' (isoString B t)) ! 0))"

record State =
  selectedMonday :: Date
  weekData :: "DayEntry list"
  hourlyWage :: jsnum
  localStorage :: storage

definition newWeek :: "Builtins \<Rightarrow> Date \<Rightarrow> DayEntry list" where
  "newWeek B monday =
     map (\<lambda>i. \<lparr>date = dayOfWeekDate B monday i, entries = [emptyEntry],
               totalHours = Some (Num 0), useDirectHours = False\<rparr>) [0..<7]"

definition initializeNewWeek :: "Builtins \<Rightarrow> Date \<Rightarrow> State \<Rightarrow> State" where
  "initializeNewWeek B monday s = s\<lparr>weekData := newWeek B monday\<rparr>"

section \<open>Loading a week from the local storage\<close>

text \<open>
  The load effect maps every stored day \<open>day\<close> to
  \<open>{...day, date: new Date(day.date), entries: day.entries ?? [{ startTime: "", endTime: "" }],
  totalHours: parseFloat(day.totalHours) ?? 0, useDirectHours: day.useDirectHours ?? false}\<close>.
\<close>

text \<open>
  \<open>parseFloat(v)\<close> for a parsed value, a method or \<open>undefined\<close>: the argument is
  converted to a string first, which may throw; the strings of \<open>undefined\<close>, \<open>null\<close>, a
  boolean, a function and an object do not begin with a number, and the string of a
  number reads back as that number (the negative zero, written \<open>0\<close>, as the positive one).
\<close>

definition parseFloatValue :: "Builtins \<Rightarrow> jsvalue \<Rightarrow> jsnum result" where
  "parseFloatValue B v =
     (if toPrimitiveThrows v then Throw
      else Ok (case v of
                 Undefined \<Rightarrow> NaN
               | Method \<Rightarrow> NaN
               | Parsed JNull \<Rightarrow> NaN
               | Parsed (JBool _) \<Rightarrow> NaN
               | Parsed (JNum n) \<Rightarrow> (if n = NegZero then Num 0 else n)
               | Parsed (JStr s) \<Rightarrow> parseFloatOf B s
               | Parsed (JArr xs) \<Rightarrow> parseFloatOf B (arrayToString B xs)
               | Parsed (JObj _) \<Rightarrow> NaN))"

text \<open>
  The own properties that the spread \<open>...day\<close> copies besides the declared ones: the
  other keys of an object, the indices of a non-empty string or array.
\<close>

definition extraProperties :: "string list \<Rightarrow> json \<Rightarrow> bool" where
  "extraProperties declared v =
     (case v of
        JObj kvs \<Rightarrow> list_ex (\<lambda>k. k \<notin> set declared) (map fst kvs)
      | JStr s \<Rightarrow> s \<noteq> []
      | JArr xs \<Rightarrow> xs \<noteq> []
      | _ \<Rightarrow> False)"

text \<open>A stored entry is kept as it is; it is a \<open>TimeEntry\<close> or foreign.\<close>

definition storedEntry :: "json \<Rightarrow> TimeEntry result" where
  "storedEntry e =
     (case e of
        JObj kvs \<Rightarrow>
          if extraProperties [''startTime'', ''endTime'', ''hours''] e then Foreign
          else (case (map_of kvs ''startTime'', map_of kvs ''endTime'') of
                  (Some (JStr a), Some (JStr b)) \<Rightarrow>
                    (case map_of kvs ''hours'' of
                       None \<Rightarrow> Ok \<lparr>startTime = a, endTime = b, hours = None\<rparr>
                     | Some (JNum n) \<Rightarrow> Ok \<lparr>startTime = a, endTime = b, hours = Some n\<rparr>
                     | Some _ \<Rightarrow> Foreign)
                | _ \<Rightarrow> Foreign)
      | _ \<Rightarrow> Foreign)"

text \<open>
  \<open>day.entries ?? [{ startTime: "", endTime: "" }]\<close>; the method \<open>entries\<close> of an array
  is kept, and it is no list of entries.
\<close>

definition storedEntries :: "jsvalue \<Rightarrow> TimeEntry list result" where
  "storedEntries v =
     (if nullish v then Ok [\<lparr>startTime = [], endTime = [], hours = None\<rparr>]
      else (case v of
              Parsed (JArr es) \<Rightarrow> collect (map storedEntry es)
            | _ \<Rightarrow> Foreign))"

text \<open>\<open>day.useDirectHours ?? false\<close>.\<close>

definition storedMode :: "jsvalue \<Rightarrow> bool result" where
  "storedMode v =
     (if nullish v then Ok False
      else (case v of
              Parsed (JBool b) \<Rightarrow> Ok b
            | _ \<Rightarrow> Foreign))"

text \<open>
  The callback of the \<open>map\<close>. Reading \<open>day.date\<close> throws on \<open>null\<close>, and \<open>new Date\<close> and
  \<open>parseFloat\<close> throw on a value that has no primitive. \<open>parseFloat\<close> returns a number,
  which is never \<open>null\<close> or \<open>undefined\<close>, so the \<open>?? 0\<close> behind it has no effect.
\<close>

definition sanitizeDay :: "Builtins \<Rightarrow> json \<Rightarrow> DayEntry result" where
  "sanitizeDay B day =
     (if day = JNull then Throw
      else (case (newDate B (property ''date'' day),
                  parseFloatValue B (property ''totalHours'' day)) of
              (Ok d, Ok tot) \<Rightarrow>
                if extraProperties [''date'', ''entries'', ''totalHours'', ''useDirectHours''] day
                then Foreign
                else (case (storedEntries (property ''entries'' day),
                            storedMode (property ''useDirectHours'' day)) of
                        (Ok es, Ok m) \<Rightarrow>
                          Ok \<lparr>date = d, entries = es, totalHours = Some tot, useDirectHours = m\<rparr>
                      | _ \<Rightarrow> Foreign)
            | _ \<Rightarrow> Throw))"

text \<open>
  \<open>JSON.parse(storedData).map(...)\<close>: \<open>Throw\<close> when the text does not parse, when the
  parsed value is not an array (it has no \<open>map\<close>) or when the callback throws.
\<close>

definition parseStoredWeek :: "Builtins \<Rightarrow> string \<Rightarrow> DayEntry list result" where
  "parseStoredWeek B storedData =
     (case jsonParse B storedData of
        Some (JArr days) \<Rightarrow> collect (map (sanitizeDay B) days)
      | _ \<Rightarrow> Throw)"

text \<open>
  The effect that runs when \<open>selectedMonday\<close> changes. A missing key and the empty text
  are falsy. The \<open>RangeError\<close> of \<open>getLocalStorageKey\<close> is outside the \<open>try\<close>.
\<close>

definition loadEffect :: "Builtins \<Rightarrow> State \<Rightarrow> State result" where
  "loadEffect B s =
     (case getLocalStorageKey B (selectedMonday s) of
        None \<Rightarrow> Throw
      | Some key \<Rightarrow>
          (case getLocalStorage (localStorage s) key of
             None \<Rightarrow> Ok (initializeNewWeek B (selectedMonday s) s)
           | Some storedData \<Rightarrow>
               if storedData = [] then Ok (initializeNewWeek B (selectedMonday s) s)
               else (case parseStoredWeek B storedData of
                       Throw \<Rightarrow> Ok (initializeNewWeek B (selectedMonday s) s)
                     | Foreign \<Rightarrow> Foreign
                     | Ok parsedData \<Rightarrow> Ok (s\<lparr>weekData := parsedData\<rparr>))))"

text \<open>The effect that runs when \<open>weekData\<close> or \<open>selectedMonday\<close> changes.\<close>

definition saveEffect :: "Builtins \<Rightarrow> State \<Rightarrow> State result" where
  "saveEffect B s =
     (if weekData s \<noteq> [] then
        (case getLocalStorageKey B (selectedMonday s) of
           None \<Rightarrow> Throw
         | Some key \<Rightarrow>
             Ok (s\<lparr>localStorage :=
                    setLocalStorage key (jsonStringify B (weekToJSON B (weekData s)))
                      (localStorage s)\<rparr>))
      else Ok s)"

text \<open>The effect that runs when \<open>hourlyWage\<close> changes.\<close>

definition wageEffect :: "Builtins \<Rightarrow> State \<Rightarrow> State" where
  "wageEffect B s =
     s\<lparr>localStorage :=
         setLocalStorage WAGE_KEY (numberToString B (hourlyWage s)) (localStorage s)\<rparr>"

text \<open>
  The effects after a handler has set \<open>selectedMonday\<close> and \<open>weekData\<close> to new objects, in
  the order of their declaration: in the first commit the load effect reads the store
  and sets the week that the next render shows, the save effect writes the week of this
  render, and the wage effect runs if the wage has changed; in the second commit the
  week has changed again and the save effect writes it.
\<close>

definition effectsAfter :: "Builtins \<Rightarrow> bool \<Rightarrow> State \<Rightarrow> State result" where
  "effectsAfter B wageChanged s =
     (case loadEffect B s of
        Throw \<Rightarrow> Throw
      | Foreign \<Rightarrow> Foreign
      | Ok loaded \<Rightarrow>
          (case saveEffect B s of
             Throw \<Rightarrow> Throw
           | Foreign \<Rightarrow> Foreign
           | Ok saved \<Rightarrow>
               saveEffect B
                 ((if wageChanged then wageEffect B saved else saved)
                    \<lparr>weekData := weekData loaded\<rparr>)))"

section \<open>Export and import\<close>

text \<open>The text of the file that \<open>downloadJSON\<close> offers.\<close>

definition exportDocument :: "Builtins \<Rightarrow> State \<Rightarrow> json" where
  "exportDocument B s =
     JObj [(''selectedMonday'', dateToJSON B (selectedMonday s)),
           (''weekData'', weekToJSON B (weekData s))]"

definition downloadJSON :: "Builtins \<Rightarrow> State \<Rightarrow> string" where
  "downloadJSON B s = jsonStringifyPretty B (exportDocument B s)"

text \<open>\<open>entry.startTime ?? ""\<close> and \<open>entry.hours ?? 0\<close>.\<close>

definition importedTime :: "jsvalue \<Rightarrow> string result" where
  "importedTime v =
     (if nullish v then Ok []
      else (case v of
              Parsed (JStr a) \<Rightarrow> Ok a
            | _ \<Rightarrow> Foreign))"

definition importedHours :: "jsvalue \<Rightarrow> jsnum result" where
  "importedHours v =
     (if nullish v then Ok (Num 0)
      else (case v of
              Parsed (JNum n) \<Rightarrow> Ok n
            | _ \<Rightarrow> Foreign))"

definition importedEntry :: "json \<Rightarrow> TimeEntry result" where
  "importedEntry entry =
     (if entry = JNull then Throw
      else (case (importedTime (property ''startTime'' entry),
                  importedTime (property ''endTime'' entry),
                  importedHours (property ''hours'' entry)) of
              (Ok a, Ok b, Ok h) \<Rightarrow> Ok \<lparr>startTime = a, endTime = b, hours = Some h\<rparr>
            | _ \<Rightarrow> Foreign))"

text \<open>
  The \<open>totalHours\<close> and \<open>useDirectHours\<close> that \<open>...day\<close> copies from the file: a total
  \<open>null\<close> is copied as \<open>null\<close>, which is no number.
\<close>

definition importedTotal :: "jsvalue \<Rightarrow> jsnum option result" where
  "importedTotal v =
     (case v of
        Undefined \<Rightarrow> Ok None
      | Parsed (JNum n) \<Rightarrow> Ok (Some n)
      | _ \<Rightarrow> Foreign)"

definition importedMode :: "jsvalue \<Rightarrow> bool result" where
  "importedMode v = (case v of Parsed (JBool b) \<Rightarrow> Ok b | _ \<Rightarrow> Foreign)"

text \<open>
  The callback of the \<open>map\<close> over \<open>data.weekData\<close>: it throws on \<open>null\<close>, when
  \<open>new Date(day.date)\<close> throws, and when \<open>day.entries\<close> has no \<open>map\<close> (it is not an
  array) or holds a \<open>null\<close>.
\<close>

definition importedDay :: "Builtins \<Rightarrow> json \<Rightarrow> DayEntry result" where
  "importedDay B day =
     (if day = JNull then Throw
      else (case newDate B (property ''date'' day) of
              Ok d \<Rightarrow>
                (case property ''entries'' day of
                   Parsed (JArr es) \<Rightarrow>
                     (case collect (map importedEntry es) of
                        Throw \<Rightarrow> Throw
                      | Foreign \<Rightarrow> Foreign
                      | Ok ents \<Rightarrow>
                          if extraProperties [''date'', ''entries'', ''totalHours'', ''useDirectHours''] day
                          then Foreign
                          else (case (importedTotal (property ''totalHours'' day),
                                      importedMode (property ''useDirectHours'' day)) of
                                  (Ok t, Ok m) \<Rightarrow>
                                    Ok \<lparr>date = d, entries = ents, totalHours = t, useDirectHours = m\<rparr>
                                | _ \<Rightarrow> Foreign))
                 | _ \<Rightarrow> Throw)
            | _ \<Rightarrow> Throw))"

text \<open>
  \<open>handleFileSelect\<close> with the text of the chosen file (\<open>None\<close>: no file was chosen).
  The result says whether the \<open>catch\<close> block showed the alert, and gives the state
  after the handler. The two setters run before \<open>getLocalStorageKey\<close>, whose
  \<open>RangeError\<close> on an Invalid Date is caught like the other errors.
\<close>

definition handleFileSelect :: "Builtins \<Rightarrow> string option \<Rightarrow> State \<Rightarrow> bool \<times> State result" where
  "handleFileSelect B file s =
     (case file of
        None \<Rightarrow> (False, Ok s)
      | Some content \<Rightarrow>
          (case jsonParse B content of
             None \<Rightarrow> (True, Ok s)
           | Some data \<Rightarrow>
               if data = JNull then (True, Ok s)
               else if \<not> truthy (property ''selectedMonday'' data) then (True, Ok s)
               else (case property ''weekData'' data of
                       Parsed (JArr days) \<Rightarrow>
                         (case newDate B (property ''selectedMonday'' data) of
                            Ok importedMonday \<Rightarrow>
                              (case collect (map (importedDay B) days) of
                                 Throw \<Rightarrow> (True, Ok s)
                               | Foreign \<Rightarrow>
                                   (getLocalStorageKey B importedMonday = None, Foreign)
                               | Ok importedWeekData \<Rightarrow>
                                   (case getLocalStorageKey B importedMonday of
                                      None \<Rightarrow>
                                        (True, Ok (s\<lparr>selectedMonday := importedMonday,
                                                     weekData := importedWeekData\<rparr>))
                                    | Some key \<Rightarrow>
                                        (False, Ok (s\<lparr>selectedMonday := importedMonday,
                                                      weekData := importedWeekData,
                                                      localStorage :=
                                                        setLocalStorage key
                                                          (jsonStringify B (weekToJSON B importedWeekData))
                                                          (localStorage s)\<rparr>))))
                          | _ \<Rightarrow> (True, Ok s))
                     | _ \<Rightarrow> (True, Ok s))))"

section \<open>Clear all\<close>

definition clearAll :: "Builtins \<Rightarrow> State \<Rightarrow> State" where
  "clearAll B s =
     (let allKeys = map fst (localStorage s);
          st = foldl (\<lambda>st key. if startsWith key TIMESHEET_PREFIX
                                then removeLocalStorage key st else st)
                 (localStorage s) allKeys;
          newMonday = getMonday B (Date (currentTime B));
          newWeekData = map (\<lambda>i. \<lparr>date = dayOfWeekDate B newMonday i, entries = [emptyEntry],
                                    totalHours = Some (Num 0), useDirectHours = False\<rparr>) [0..<7]
      in \<lparr>selectedMonday = newMonday, weekData = newWeekData, hourlyWage = Num 0,
          localStorage = removeLocalStorage WAGE_KEY st\<rparr>)"

text \<open>
  The state once the effects that follow \<open>clearAll\<close> have run; the wage effect runs if
  the wage was not 0 before (the negative zero is another value than 0 for the
  comparison of the effect's dependencies).
\<close>

definition clearAllRendered :: "Builtins \<Rightarrow> State \<Rightarrow> State result" where
  "clearAllRendered B s = effectsAfter B (hourlyWage s \<noteq> Num 0) (clearAll B s)"

text \<open>The store without the week keys and without the wage key.\<close>

definition clearedStorage :: "storage \<Rightarrow> storage" where
  "clearedStorage st =
     filter (\<lambda>kv. fst kv \<noteq> WAGE_KEY) (filter (\<lambda>kv. \<not> startsWith (fst kv) TIMESHEET_PREFIX) st)"

section \<open>What the import makes of an exported week\<close>

text \<open>
  An exported entry comes back with its times and with its hours, or with the hours 0
  when it had none or when they were no finite number (\<open>NaN\<close> and the infinities are
  exported as \<open>null\<close>, the negative zero as \<open>0\<close>). An exported day whose total is a finite
  number comes back with these entries, its mode and its total; its date is what
  \<open>new Date\<close> reads from the exported date.
\<close>

definition reimportedEntry :: "TimeEntry \<Rightarrow> TimeEntry" where
  "reimportedEntry e = e\<lparr>hours := Some (case hours e of Some (Num d) \<Rightarrow> Num d | _ \<Rightarrow> Num 0)\<rparr>"

definition reimportedDay :: "Builtins \<Rightarrow> DayEntry \<Rightarrow> DayEntry" where
  "reimportedDay B d =
     \<lparr>date = dateOf B (Parsed (dateToJSON B (date d))),
      entries = map reimportedEntry (entries d),
      totalHours = totalHours d,
      useDirectHours = useDirectHours d\<rparr>"

section \<open>Sample values for the examples\<close>

text \<open>
  Monday 2024-06-03, 00:00, as a time value, in the time zone UTC.
\<close>

definition sampleMonday :: int where
  "sampleMonday = 1717372800000"

definition sampleISO :: string where
  "sampleISO = ''2024-06-03T00:00:00.000Z''"

text \<open>Three texts: a file with no day, a file with no date, and a stored week without total.\<close>

definition noDayFile :: string where
  \<open>noDayFile = ''{"selectedMonday":"2024-06-03T00:00:00.000Z","weekData":[]}''\<close>

definition noDayDocument :: json where
  "noDayDocument = JObj [(''selectedMonday'', JStr sampleISO), (''weekData'', JArr [])]"

definition noDateFile :: string where
  \<open>noDateFile = ''{"selectedMonday":"not a date","weekData":[]}''\<close>

definition noDateDocument :: json where
  "noDateDocument = JObj [(''selectedMonday'', JStr ''not a date''), (''weekData'', JArr [])]"

definition noTotalText :: string where
  \<open>noTotalText = ''[{"date":"2024-06-03T00:00:00.000Z","entries":[]}]''\<close>

definition noTotalDocument :: json where
  "noTotalDocument = JArr [JObj [(''date'', JStr sampleISO), (''entries'', JArr [])]]"

text \<open>
  The week of 2024-06-03 with eight hours on Monday, and the same week whose total is
  \<open>NaN\<close> (as it is after the load of a stored week without total).
\<close>

definition sampleDay :: DayEntry where
  "sampleDay =
     \<lparr>date = Date sampleMonday,
      entries = [\<lparr>startTime = ''09:00'', endTime = ''17:00'', hours = Some (Num 0)\<rparr>],
      totalHours = Some (Num (D 8)), useDirectHours = False\<rparr>"

definition nanDay :: DayEntry where
  "nanDay = sampleDay\<lparr>totalHours := Some NaN\<rparr>"

text \<open>The week as JSON, with the given \<open>totalHours\<close>, its text in the store and in a file.\<close>

definition weekDocument :: "json \<Rightarrow> json" where
  "weekDocument tot =
     JArr [JObj [(''date'', JStr sampleISO),
                 (''entries'', JArr [JObj [(''startTime'', JStr ''09:00''),
                                           (''endTime'', JStr ''17:00''),
                                           (''hours'', JNum (Num 0))]]),
                 (''totalHours'', tot),
                 (''useDirectHours'', JBool False)]]"

definition fileDocument :: "json \<Rightarrow> json" where
  "fileDocument tot = JObj [(''selectedMonday'', JStr sampleISO), (''weekData'', weekDocument tot)]"

definition weekText :: string where
  \<open>weekText = ''[{"date":"2024-06-03T00:00:00.000Z","entries":[{"startTime":"09:00","endTime":"17:00","hours":0}],"totalHours":8,"useDirectHours":false}]''\<close>

fun joinLines :: "string list \<Rightarrow> string" where
  "joinLines [] = []"
| "joinLines [l] = l"
| "joinLines (l # ls) = l @ CHR 0x0A # joinLines ls"

definition fileText :: "string \<Rightarrow> string" where
  \<open>fileText tot = joinLines
     [''{'',
      ''  "selectedMonday": "2024-06-03T00:00:00.000Z",'',
      ''  "weekData": ['',
      ''    {'',
      ''      "date": "2024-06-03T00:00:00.000Z",'',
      ''      "entries": ['',
      ''        {'',
      ''          "startTime": "09:00",'',
      ''          "endTime": "17:00",'',
      ''          "hours": 0'',
      ''        }'',
      ''      ],'',
      ''      "totalHours": '' @ tot @ '','',
      ''      "useDirectHours": false'',
      ''    }'',
      ''  ]'',
      ''}'']\<close>

text \<open>
  An engine for the examples, in the time zone UTC. It answers as a JavaScript engine
  does on the three texts above, on the texts and documents of the sample week, on the
  date 2024-06-03 and on the number 0. The examples read no other answer of it: the text
  of any other document is a placeholder, and every date has the ISO string of
  2024-06-03.
\<close>

definition sampleEngine :: Builtins where
  "sampleEngine =
     \<lparr>jsonParse = map_of [(noDayFile, noDayDocument), (noDateFile, noDateDocument),
                           (noTotalText, noTotalDocument),
                           (weekText, weekDocument (JNum (Num (D 8)))),
                           (fileText ''8'', fileDocument (JNum (Num (D 8)))),
                           (fileText ''null'', fileDocument JNull)],
      jsonStringify = (\<lambda>j. if j = JArr [] then ''[]''
                            else if j = weekDocument (JNum (Num (D 8))) then weekText else ''[...]''),
      jsonStringifyPretty = (\<lambda>j. if j = fileDocument (JNum (Num (D 8))) then fileText ''8''
                                  else if j = fileDocument JNull then fileText ''null''
                                  else ''{...}''),
      parseFloatOf = (\<lambda>s. NaN),
      arrayToString = (\<lambda>xs. []),
      isoString = (\<lambda>t. sampleISO),
      dateOf = (\<lambda>v. if v = Parsed (JStr sampleISO) then Date sampleMonday else InvalidDate),
      numberToString = (\<lambda>n. ''0''),
      currentTime = 1717581600000,
      localTZA = (\<lambda>t isUTC. 0)\<rparr>"

text \<open>
  The same engine in a time zone that moves its clocks from 00:00 to 01:00 on Monday
  2024-06-03: the offset is 0 before and one hour from then on, and a local time within
  the skipped hour is read with the offset before the change.
\<close>

definition dstEngine :: Builtins where
  "dstEngine =
     sampleEngine\<lparr>localTZA :=
       (\<lambda>t isUTC. if isUTC then (if t < sampleMonday then 0 else 3600000)
                  else (if t < sampleMonday + 3600000 then 0 else 3600000))\<rparr>"

text \<open>A state of the component, and the state a session starts with on 2024-06-05.\<close>

definition sampleState :: State where
  "sampleState =
     \<lparr>selectedMonday = Date sampleMonday, weekData = [sampleDay], hourlyWage = Num (D 20),
      localStorage = [(''timesheet-hourly-wage'', ''20''),
                      (''timesheet-data-2024-05-27'', ''[]'')]\<rparr>"

text \<open>The same state with a stored week for 2024-06-03 whose day has no \<open>totalHours\<close>.\<close>

definition noTotalState :: State where
  "noTotalState = sampleState\<lparr>localStorage := [(''timesheet-data-2024-06-03'', noTotalText)]\<rparr>"

definition nanState :: State where
  "nanState = sampleState\<lparr>weekData := [nanDay]\<rparr>"

definition freshState :: State where
  "freshState =
     \<lparr>selectedMonday = Date sampleMonday, weekData = newWeek sampleEngine (Date sampleMonday),
      hourlyWage = Num 0, localStorage = []\<rparr>"

text \<open>A time of 310 digits \<open>9\<close>, a colon and \<open>00\<close>.\<close>

definition hugeTime :: string where
  "hugeTime = replicate 310 CHR ''9'' @ '':00''"

section \<open>Facts about the rounding to doubles\<close>

lemma powi_pos: "0 < (2::rat) powi k"
  by (simp add: power_int_def)

lemma powi_add2: "(2::rat) powi (i + j) = 2 powi i * 2 powi j"
  by (simp add: power_int_add)

lemma powi_mono2: "i \<le> j \<Longrightarrow> (2::rat) powi i \<le> 2 powi j"
  by (simp add: power_int_increasing)

lemma powi_strict_mono2: "i < j \<Longrightarrow> (2::rat) powi i < 2 powi j"
  by (simp add: power_int_strict_increasing)

lemma ilog2_lower:
  assumes "0 < r"
  shows "2 powi (ilog2 r) \<le> r"
proof -
  obtain p q where pq: "quotient_of r = (p, q)" by (cases "quotient_of r")
  then have q: "0 < q" and r: "r = of_int p / of_int q"
    using quotient_of_denom_pos quotient_of_div by auto
  with assms have p: "0 < p"
    by (simp add: zero_less_divide_iff)
  let ?k = "bitlen p - bitlen q"
  show ?thesis
  proof (cases "2 powi ?k \<le> r")
    case True
    then show ?thesis by (simp add: ilog2_def pq)
  next
    case False
    have bp: "2 ^ nat (bitlen p - 1) \<le> p" using bitlen_bounds [OF p] by simp
    have bq: "q < 2 ^ nat (bitlen q)" using bitlen_bounds [OF q] by simp
    have p1: "1 \<le> bitlen p" using p by (simp add: bitlen_alt_def)
    have "(2::rat) powi (?k - 1) = 2 powi (bitlen p - 1) / 2 powi (bitlen q)"
      by (simp add: power_int_diff)
    also have "\<dots> = 2 ^ nat (bitlen p - 1) / 2 ^ nat (bitlen q)"
      using p1 bitlen_nonneg [of q] by (simp add: power_int_def)
    also have "\<dots> \<le> of_int p / of_int q"
    proof -
      have "(2::rat) ^ nat (bitlen p - 1) \<le> of_int p"
        using bp by (metis of_int_le_iff of_int_numeral of_int_power)
      moreover have "of_int q \<le> (2::rat) ^ nat (bitlen q)"
        using bq by (metis less_imp_le of_int_le_iff of_int_numeral of_int_power)
      ultimately show ?thesis
        using q by (intro frac_le) (auto intro: order_trans [of 0 "2 ^ nat (bitlen p - 1)"])
    qed
    also have "\<dots> = r"
      by (simp add: r)
    finally show ?thesis
      using False by (simp add: ilog2_def pq)
  qed
qed

lemma roundHalfEven_of_int [simp]: "roundHalfEven (of_int m) = m"
  by (simp add: roundHalfEven_def)

lemma roundHalfEven_ge_1: "1 \<le> q \<Longrightarrow> 1 \<le> roundHalfEven q"
proof -
  assume "1 \<le> q"
  then have "1 \<le> \<lfloor>q\<rfloor>" by (simp add: le_floor_iff)
  then show ?thesis by (auto simp: roundHalfEven_def Let_def)
qed

lemma ulp_pos: "0 < ulp r"
  by (simp add: ulp_def powi_pos)

text \<open>A number \<open>m * 2 powi j\<close> with a 53-bit \<open>m\<close> and \<open>j\<close> from -1074 is its own rounding.\<close>

lemma nearest_dyadic:
  assumes m: "\<bar>m\<bar> < 2 ^ 53" and j: "- 1074 \<le> j"
  shows "nearest (of_int m * 2 powi j) = of_int m * 2 powi j"
proof (cases "m = 0")
  case True
  then show ?thesis by (simp add: nearest_def)
next
  case False
  define r :: rat where "r = of_int m * 2 powi j"
  define e where "e = max (ilog2 \<bar>r\<bar>) (- 1022)"
  have r0: "r \<noteq> 0" using False by (simp add: r_def)
  have abs_r: "\<bar>r\<bar> = of_int \<bar>m\<bar> * 2 powi j"
    by (simp add: r_def abs_mult powi_pos less_imp_le)
  have u: "ulp r = 2 powi (e - 52)"
    by (simp add: ulp_def e_def)
  have le: "e - 52 \<le> j"
  proof (cases "ilog2 \<bar>r\<bar> \<le> - 1022")
    case True
    then show ?thesis using j by (simp add: e_def)
  next
    case False
    have "2 powi (ilog2 \<bar>r\<bar>) \<le> \<bar>r\<bar>"
      using r0 by (intro ilog2_lower) simp
    also have "\<dots> < 2 ^ 53 * 2 powi j"
      unfolding abs_r using m
      by (intro mult_strict_right_mono powi_pos) (metis of_int_less_iff of_int_numeral of_int_power)
    also have "\<dots> = 2 powi (53 + j)"
      by (simp add: powi_add2)
    finally have "(2::rat) powi (ilog2 \<bar>r\<bar>) < 2 powi (53 + j)" .
    then have "ilog2 \<bar>r\<bar> < 53 + j"
      using powi_mono2 [of "53 + j" "ilog2 \<bar>r\<bar>"] by (cases "ilog2 \<bar>r\<bar> < 53 + j") auto
    then show ?thesis using False by (simp add: e_def)
  qed
  define d where "d = nat (j - (e - 52))"
  have jd: "j = (e - 52) + int d" using le by (simp add: d_def)
  have "2 powi j = (2::rat) powi (e - 52) * 2 ^ d"
    by (subst jd, subst powi_add2) simp
  then have quot: "\<bar>r\<bar> / ulp r = of_int (\<bar>m\<bar> * 2 ^ d)"
    using powi_pos [of "e - 52"] by (simp add: abs_r u)
  have "nearest r = sgn r * of_int (\<bar>m\<bar> * 2 ^ d) * ulp r"
    using r0 by (simp only: nearest_def quot roundHalfEven_of_int if_False)
  also have "\<dots> = sgn r * (\<bar>r\<bar> / ulp r) * ulp r"
    by (simp only: quot)
  also have "\<dots> = sgn r * \<bar>r\<bar>"
    using ulp_pos [of r] by simp
  also have "\<dots> = r"
    by (simp add: sgn_mult_abs)
  finally show ?thesis by (simp add: r_def)
qed

lemma isDouble_0: "isDouble 0"
  by (simp add: isDouble_def nearest_def)

lemma toRat_0 [simp]: "toRat 0 = 0"
  by (simp add: zero_double_def Abs_double_inverse isDouble_0)

lemma toRat_D: "isDouble r \<Longrightarrow> toRat (D r) = r"
  by (simp add: D_def Abs_double_inverse)

lemma isDouble_toRat [simp]: "isDouble (toRat d)"
  using toRat [of d] by simp

lemma D_toRat [simp]: "D (toRat d) = d"
  by (simp add: D_def toRat_inverse)

lemma toRat_eq_0_iff [simp]: "toRat d = 0 \<longleftrightarrow> d = 0"
  by (metis toRat_0 toRat_inject)

lemma isDouble_dyadic:
  assumes "\<bar>m\<bar> < 2 ^ 53" and "- 1074 \<le> j" and "j \<le> 971"
  shows "isDouble (of_int m * 2 powi j)"
proof -
  have "\<bar>of_int m * (2::rat) powi j\<bar> = of_int \<bar>m\<bar> * 2 powi j"
    by (simp add: abs_mult powi_pos less_imp_le)
  also have "\<dots> < 2 ^ 53 * 2 powi 971"
  proof -
    have "of_int \<bar>m\<bar> < (2::rat) ^ 53"
      using assms(1) by (metis of_int_less_iff of_int_numeral of_int_power)
    moreover have "(2::rat) powi j \<le> 2 powi 971"
      using assms(3) by (rule powi_mono2)
    ultimately show ?thesis
      using powi_pos [of j] by (intro mult_less_le_imp_less) auto
  qed
  also have "\<dots> = 2 ^ 1024"
    by simp
  finally show ?thesis
    using assms by (simp add: isDouble_def nearest_dyadic)
qed

lemma isDouble_of_int: "\<bar>n\<bar> < 2 ^ 53 \<Longrightarrow> isDouble (of_int n)"
  using isDouble_dyadic [of n 0] by simp

lemma fl_of_int:
  assumes "\<bar>n\<bar> < 2 ^ 53"
  shows "fl (of_int n) = Num (D (of_int n))"
proof (cases "n = 0")
  case True
  then show ?thesis by (simp add: fl_def D_def isDouble_0 zero_double_def)
next
  case False
  have d: "isDouble (of_int n)" using assms by (rule isDouble_of_int)
  then have "nearest (of_int n) = of_int n" "\<bar>of_int n :: rat\<bar> < 2 ^ 1024"
    by (simp_all add: isDouble_def)
  then show ?thesis using False by (simp add: fl_def)
qed

lemma ilog2_upper:
  assumes "0 < r"
  shows "r < 2 powi (ilog2 r + 1)"
proof -
  obtain p q where pq: "quotient_of r = (p, q)" by (cases "quotient_of r")
  then have q: "0 < q" and r: "r = of_int p / of_int q"
    using quotient_of_denom_pos quotient_of_div by auto
  with assms have p: "0 < p"
    by (simp add: zero_less_divide_iff)
  let ?k = "bitlen p - bitlen q"
  show ?thesis
  proof (cases "2 powi ?k \<le> r")
    case False
    then show ?thesis by (simp add: ilog2_def pq)
  next
    case True
    have bp: "p < 2 ^ nat (bitlen p)" using bitlen_bounds [OF p] by simp
    have bq: "2 ^ nat (bitlen q - 1) \<le> q" using bitlen_bounds [OF q] by simp
    have q1: "1 \<le> bitlen q" using q by (simp add: bitlen_alt_def)
    have "r = of_int p / of_int q"
      by (rule r)
    also have "\<dots> < 2 ^ nat (bitlen p) / 2 ^ nat (bitlen q - 1)"
    proof -
      have "of_int p < (2::rat) ^ nat (bitlen p)"
        using bp by (metis of_int_less_iff of_int_numeral of_int_power)
      moreover have "(2::rat) ^ nat (bitlen q - 1) \<le> of_int q"
        using bq by (metis of_int_le_iff of_int_numeral of_int_power)
      moreover have "(0::rat) < of_int p" using p by simp
      ultimately show ?thesis
        by (intro frac_less) auto
    qed
    also have "\<dots> = 2 powi (bitlen p) / 2 powi (bitlen q - 1)"
      using q1 bitlen_nonneg [of p] by (simp add: power_int_def)
    also have "\<dots> = 2 powi (?k + 1)"
      by (simp add: power_int_diff power_int_add)
    finally show ?thesis
      using True by (simp add: ilog2_def pq)
  qed
qed

lemma ulp_minus [simp]: "ulp (- r) = ulp r"
  by (simp add: ulp_def)

lemma nearest_minus: "nearest (- r) = - nearest r"
  by (simp add: nearest_def sgn_minus)

lemma isDouble_minus [simp]: "isDouble (- r) = isDouble r"
  by (auto simp: isDouble_def nearest_minus)

lemma roundHalfEven_nonneg: "0 \<le> q \<Longrightarrow> 0 \<le> roundHalfEven q"
  by (auto simp: roundHalfEven_def Let_def)

lemma roundHalfEven_le: "roundHalfEven q \<le> \<lfloor>q\<rfloor> + 1"
  by (auto simp: roundHalfEven_def Let_def)

lemma roundHalfEven_ge: "\<lfloor>q\<rfloor> \<le> roundHalfEven q"
  by (auto simp: roundHalfEven_def Let_def)

text \<open>The rounding of a number is a double, unless it is beyond the largest double.\<close>

lemma nearest_form:
  assumes "r \<noteq> 0"
  shows "\<exists>m j. nearest r = of_int m * 2 powi j \<and> \<bar>m\<bar> < 2 ^ 53 \<and> - 1074 \<le> j"
proof -
  define a where "a = \<bar>r\<bar>"
  define e where "e = max (ilog2 a) (- 1022)"
  define u :: rat where "u = 2 powi (e - 52)"
  define M where "M = roundHalfEven (a / u)"
  define sg :: int where "sg = (if 0 < r then 1 else - 1)"
  have a: "0 < a" using assms by (simp add: a_def)
  have u: "0 < u" by (simp add: u_def powi_pos)
  have ulp: "ulp r = u" by (simp add: ulp_def u_def e_def a_def)
  have sg: "sgn r = of_int sg" using assms by (simp add: sg_def sgn_if)
  have near: "nearest r = of_int (sg * M) * u"
    using assms by (simp add: nearest_def ulp sg M_def a_def)
  have "a < 2 powi (ilog2 a + 1)" using a by (rule ilog2_upper)
  also have "\<dots> \<le> 2 powi (e + 1)" by (rule powi_mono2) (simp add: e_def)
  also have "\<dots> = 2 ^ 53 * u"
  proof -
    have "e + 1 = 53 + (e - 52)" by simp
    then have "(2::rat) powi (e + 1) = 2 powi 53 * 2 powi (e - 52)"
      by (simp only: powi_add2)
    then show ?thesis by (simp add: u_def)
  qed
  finally have "a / u < 2 ^ 53"
    using u by (simp add: pos_divide_less_eq)
  then have "\<lfloor>a / u\<rfloor> < 2 ^ 53"
    by (simp add: floor_less_iff)
  then have M_le: "M \<le> 2 ^ 53"
    unfolding M_def using roundHalfEven_le [of "a / u"] by linarith
  have M_ge: "0 \<le> M"
    unfolding M_def using a u by (intro roundHalfEven_nonneg) simp
  have j: "- 1074 \<le> e - 52" by (simp add: e_def)
  show ?thesis
  proof (cases "M = 2 ^ 53")
    case False
    then have "\<bar>sg * M\<bar> < 2 ^ 53"
      using M_le M_ge by (simp add: sg_def abs_mult)
    then show ?thesis
      using near j unfolding u_def by blast
  next
    case True
    have "(2::rat) powi (e - 52 + 1) = 2 powi (e - 52) * 2 powi 1"
      by (simp only: powi_add2)
    then have "of_int (sg * M) * u = of_int (sg * 2 ^ 52) * 2 powi (e - 52 + 1)"
      by (simp add: True u_def)
    moreover have "\<bar>sg * 2 ^ 52\<bar> < (2::int) ^ 53"
      by (simp add: sg_def)
    moreover have "- 1074 \<le> e - 52 + 1" using j by simp
    ultimately show ?thesis
      using near by metis
  qed
qed

lemma isDouble_nearest: "\<bar>nearest r\<bar> < 2 ^ 1024 \<Longrightarrow> isDouble (nearest r)"
proof (cases "r = 0")
  case True
  then show ?thesis by (simp add: nearest_def isDouble_0)
next
  case False
  assume bound: "\<bar>nearest r\<bar> < 2 ^ 1024"
  from nearest_form [OF False] obtain m j
    where "nearest r = of_int m * 2 powi j" "\<bar>m\<bar> < 2 ^ 53" "- 1074 \<le> j"
    by blast
  then have "nearest (nearest r) = nearest r"
    by (simp add: nearest_dyadic)
  then show ?thesis
    using bound by (simp add: isDouble_def)
qed

text \<open>Every double is a multiple of the smallest one, and no such multiple rounds to 0.\<close>

lemma isDouble_multiple:
  assumes "isDouble a"
  shows "\<exists>k. a = of_int k * 2 powi (- 1074)"
proof (cases "a = 0")
  case True
  then show ?thesis by (intro exI [of _ 0]) simp
next
  case False
  define c :: rat where "c = 2 powi (- 1074)"
  from assms have "nearest a = a" by (simp add: isDouble_def)
  with nearest_form [OF False] obtain m j
    where a: "a = of_int m * 2 powi j" and j: "- 1074 \<le> j"
    by metis
  have eq: "int (nat (j + 1074)) + (- 1074) = j" using j by simp
  have "(2::rat) powi j = 2 powi (int (nat (j + 1074))) * c"
    unfolding c_def by (simp only: powi_add2 [symmetric] eq)
  also have "(2::rat) powi (int (nat (j + 1074))) = 2 ^ nat (j + 1074)"
    by (simp only: power_int_of_nat)
  finally have "a = of_int (m * 2 ^ nat (j + 1074)) * c"
    by (simp add: a)
  then show ?thesis unfolding c_def by blast
qed

lemma nearest_multiple_nonzero:
  assumes "k \<noteq> 0"
  shows "nearest (of_int k * 2 powi (- 1074)) \<noteq> 0"
proof -
  define c :: rat where "c = 2 powi (- 1074)"
  define r :: rat where "r = of_int k * c"
  define e where "e = max (ilog2 \<bar>r\<bar>) (- 1022)"
  have c: "0 < c" unfolding c_def by (rule powi_pos)
  have r: "r \<noteq> 0" using assms c by (simp add: r_def)
  then have a: "0 < \<bar>r\<bar>" by simp
  have u: "ulp r = 2 powi (e - 52)" by (simp add: ulp_def e_def)
  have "1 \<le> \<bar>r\<bar> / ulp r"
  proof (cases "ilog2 \<bar>r\<bar> \<le> - 1022")
    case True
    then have "e - 52 = - 1074" by (simp add: e_def)
    then have "ulp r = c" unfolding u c_def by (simp only:)
    moreover have "\<bar>r\<bar> = of_int \<bar>k\<bar> * c"
      using c by (simp add: r_def abs_mult)
    moreover have "1 \<le> \<bar>k\<bar>"
      using assms by arith
    then have "(1::rat) \<le> of_int \<bar>k\<bar>"
      by (metis of_int_1 of_int_le_iff)
    ultimately show ?thesis
      using c by simp
  next
    case False
    then have "e = ilog2 \<bar>r\<bar>" by (simp add: e_def)
    then have "ulp r \<le> 2 powi (ilog2 \<bar>r\<bar>)"
      unfolding u by (intro powi_mono2) simp
    also have "\<dots> \<le> \<bar>r\<bar>" using a by (rule ilog2_lower)
    finally show ?thesis
      using ulp_pos [of r] by (simp add: pos_le_divide_eq)
  qed
  then have "1 \<le> roundHalfEven (\<bar>r\<bar> / ulp r)"
    by (rule roundHalfEven_ge_1)
  then have "roundHalfEven (\<bar>r\<bar> / ulp r) \<noteq> 0" by simp
  then have "nearest r \<noteq> 0"
    using r ulp_pos [of r] by (simp add: nearest_def sgn_if)
  then show ?thesis unfolding r_def c_def .
qed

lemma nearest_sum_nonzero:
  assumes "isDouble a" and "isDouble b" and "a + b \<noteq> 0"
  shows "nearest (a + b) \<noteq> 0"
proof -
  obtain k l where "a = of_int k * 2 powi (- 1074)" "b = of_int l * 2 powi (- 1074)"
    using assms isDouble_multiple by blast
  then have s: "a + b = of_int (k + l) * 2 powi (- 1074)"
    by (simp add: algebra_simps)
  with assms(3) have "k + l \<noteq> 0" by auto
  then show ?thesis
    unfolding s by (rule nearest_multiple_nonzero)
qed

text \<open>A number from \<open>2 ^ 1024\<close> on rounds to no double.\<close>

lemma nearest_overflow:
  assumes "2 ^ 1024 \<le> \<bar>r\<bar>"
  shows "2 ^ 1024 \<le> \<bar>nearest r\<bar>"
proof -
  define a where "a = \<bar>r\<bar>"
  define e where "e = ilog2 a"
  have a: "0 < a" using assms by (simp add: a_def order_less_le_trans [of 0 "2 ^ 1024"])
  then have r: "r \<noteq> 0" by (auto simp: a_def)
  have "(2::rat) powi 1024 \<le> a" using assms by (simp add: a_def)
  also have "a < 2 powi (e + 1)" unfolding e_def using a by (rule ilog2_upper)
  finally have "\<not> e + 1 \<le> 1024"
    using powi_mono2 [of "e + 1" 1024] by auto
  then have e: "1024 \<le> e" by simp
  then have u: "ulp r = 2 powi (e - 52)" by (simp add: ulp_def e_def a_def)
  have "(2::rat) powi e = 2 powi 52 * 2 powi (e - 52)"
    using powi_add2 [of 52 "e - 52"] by simp
  moreover have "2 powi e \<le> a" unfolding e_def using a by (rule ilog2_lower)
  ultimately have "2 ^ 52 \<le> a / ulp r"
    using powi_pos [of "e - 52"] by (simp add: u pos_le_divide_eq)
  then have "2 ^ 52 \<le> \<lfloor>a / ulp r\<rfloor>"
    by (simp add: le_floor_iff)
  then have M: "2 ^ 52 \<le> roundHalfEven (a / ulp r)"
    using roundHalfEven_ge [of "a / ulp r"] by linarith
  have "\<bar>nearest r\<bar> = of_int (roundHalfEven (a / ulp r)) * ulp r"
    using r M ulp_pos [of r] by (simp add: nearest_def abs_mult a_def)
  moreover have "(2::rat) ^ 52 \<le> of_int (roundHalfEven (a / ulp r))"
    using M by (metis of_int_le_iff of_int_numeral of_int_power)
  ultimately have "2 ^ 52 * ulp r \<le> \<bar>nearest r\<bar>"
    using ulp_pos [of r] by simp
  moreover have "(2::rat) ^ 52 * ulp r = 2 powi e"
    using powi_add2 [of 52 "e - 52"] by (simp add: u)
  moreover have "(2::rat) powi 1024 \<le> 2 powi e"
    using e by (rule powi_mono2)
  ultimately show ?thesis by simp
qed

text \<open>The doubles with a small integer value, for the examples.\<close>

lemma D_0 [simp]: "D 0 = 0"
  by (simp add: D_def isDouble_0 zero_double_def)

lemma isDouble_numeral: "numeral w < (2::int) ^ 53 \<Longrightarrow> isDouble (numeral w)"
  using isDouble_of_int [of "numeral w"] by simp

lemma isDouble_1: "isDouble 1"
  using isDouble_of_int [of 1] by simp

lemma toRat_D_numeral [simp]:
  "numeral w < (2::int) ^ 53 \<Longrightarrow> toRat (D (numeral w)) = numeral w"
  "numeral w < (2::int) ^ 53 \<Longrightarrow> toRat (D (- numeral w)) = - numeral w"
  "toRat (D 1) = 1"
  "toRat (D (- 1)) = - 1"
  by (simp_all add: toRat_D isDouble_numeral isDouble_1)

lemma D_eq_0_iff: "isDouble r \<Longrightarrow> D r = 0 \<longleftrightarrow> r = 0"
  by (metis D_0 toRat_D isDouble_0)

lemma D_numeral_eq_0 [simp]:
  "numeral w < (2::int) ^ 53 \<Longrightarrow> D (numeral w) \<noteq> 0"
  "numeral w < (2::int) ^ 53 \<Longrightarrow> D (- numeral w) \<noteq> 0"
  "D 1 \<noteq> 0"
  "D (- 1) \<noteq> 0"
  by (simp_all add: D_eq_0_iff isDouble_numeral isDouble_1)

lemma D_eq_iff: "isDouble a \<Longrightarrow> isDouble b \<Longrightarrow> D a = D b \<longleftrightarrow> a = b"
  by (metis toRat_D)

lemma fl_numeral [simp]:
  "numeral w < (2::int) ^ 53 \<Longrightarrow> fl (numeral w) = Num (D (numeral w))"
  "numeral w < (2::int) ^ 53 \<Longrightarrow> fl (- numeral w) = Num (D (- numeral w))"
  "fl 1 = Num (D 1)"
  "fl (- 1) = Num (D (- 1))"
  "fl 0 = Num 0"
  using fl_of_int [of "numeral w"] fl_of_int [of "- numeral w"] fl_of_int [of 1]
    fl_of_int [of "- 1"]
  by (simp_all add: fl_def)

text \<open>A sum is the negative zero only if its first operand is.\<close>

lemma fl_double: "isDouble a \<Longrightarrow> fl a = Num (D a)"
  by (auto simp: fl_def isDouble_def Let_def)

lemma fl_sum_not_NegZero: "fl (toRat a + toRat b) \<noteq> NegZero"
proof (cases "toRat a + toRat b = 0")
  case True
  then show ?thesis by (simp add: fl_def)
next
  case False
  then have "nearest (toRat a + toRat b) \<noteq> 0"
    by (intro nearest_sum_nonzero) simp_all
  then show ?thesis by (simp add: fl_def Let_def)
qed

lemma js_add_not_NegZero: "x \<noteq> NegZero \<Longrightarrow> js_add x y \<noteq> NegZero"
  by (cases x; cases y) (simp_all add: fl_sum_not_NegZero)

lemma js_add_zero_right: "x \<noteq> NegZero \<Longrightarrow> js_add x (Num 0) = x"
  by (cases x) (simp_all add: fl_double)

text \<open>The values of \<open>fl\<close>: the rounding of \<open>r\<close>, or an infinity beyond the largest double.\<close>

lemma fl_value:
  assumes "fl r = Num d"
  shows "toRat d = nearest r"
proof (cases "r = 0")
  case True
  with assms show ?thesis by (simp add: fl_def nearest_def)
next
  case False
  define v where "v = nearest r"
  from assms False have bound: "\<bar>v\<bar> < 2 ^ 1024"
    unfolding fl_def Let_def v_def by (auto split: if_splits)
  then have dbl: "isDouble v"
    unfolding v_def by (rule isDouble_nearest)
  show ?thesis
  proof (cases "v = 0")
    case True
    with assms False bound have "d = 0"
      unfolding fl_def Let_def v_def by (auto split: if_splits)
    with True show ?thesis by (simp add: v_def)
  next
    case nz: False
    with assms False bound have "d = D v"
      unfolding fl_def Let_def v_def by (auto split: if_splits)
    with dbl show ?thesis by (simp add: toRat_D v_def)
  qed
qed

lemma fl_overflow: "2 ^ 1024 \<le> r \<Longrightarrow> fl r = PosInf"
proof -
  assume r: "2 ^ 1024 \<le> r"
  then have "0 < r" by (rule order_less_le_trans [rotated]) simp
  moreover from r have "2 ^ 1024 \<le> \<bar>nearest r\<bar>"
    by (intro nearest_overflow) simp
  ultimately show ?thesis by (simp add: fl_def Let_def)
qed

text \<open>The equations that make the doubles executable.\<close>

lemma double_abstype [code abstype]: "Abs_double (toRat d) = d"
  by (rule toRat_inverse)

lemma zero_double_code [code abstract]: "toRat 0 = 0"
  by simp

lemma D_code [code abstract]: "toRat (D r) = (if isDouble r then r else 0)"
  by (simp add: toRat_D) (simp add: D_def)

section \<open>Facts about the hour aggregation\<close>

lemma directStep_not_NegZero: "tot \<noteq> NegZero \<Longrightarrow> directStep tot e \<noteq> NegZero"
  by (simp add: directStep_def Let_def js_add_not_NegZero)

lemma rangeStep_not_NegZero: "tot \<noteq> NegZero \<Longrightarrow> rangeStep tot e \<noteq> NegZero"
  by (simp add: rangeStep_def Let_def js_add_not_NegZero)

lemma foldl_directStep_not_NegZero: "tot \<noteq> NegZero \<Longrightarrow> foldl directStep tot es \<noteq> NegZero"
  by (induction es arbitrary: tot) (simp_all add: directStep_not_NegZero)

lemma foldl_rangeStep_not_NegZero: "tot \<noteq> NegZero \<Longrightarrow> foldl rangeStep tot es \<noteq> NegZero"
  by (induction es arbitrary: tot) (simp_all add: rangeStep_not_NegZero)

lemma calculateDayHours_not_NegZero: "calculateDayHours es m \<noteq> NegZero"
  by (simp add: calculateDayHours_def foldl_directStep_not_NegZero foldl_rangeStep_not_NegZero)

lemma rangeStep_emptyEntry: "rangeStep tot emptyEntry = tot"
  by (simp add: rangeStep_def emptyEntry_def)

lemma directStep_emptyEntry: "tot \<noteq> NegZero \<Longrightarrow> directStep tot emptyEntry = tot"
  by (simp add: directStep_def emptyEntry_def js_add_zero_right)

lemma calculateDayHours_snoc_empty: "calculateDayHours (es @ [emptyEntry]) m = calculateDayHours es m"
  by (simp add: calculateDayHours_def rangeStep_emptyEntry directStep_emptyEntry
      foldl_directStep_not_NegZero)

text \<open>The reading of a time whose hour has 310 digits: the hour is \<open>Infinity\<close>.\<close>

lemma digit_not_white: "isDigit c \<Longrightarrow> \<not> isWhiteSpace c"
  by (auto simp: isDigit_def isWhiteSpace_def)

lemma parseInt_numeric:
  assumes "isNumeric p"
  shows "parseInt p = (if digitsValue p = 0 then Num 0 else fl (of_nat (digitsValue p)))"
proof -
  from assms obtain c r where p: "p = c # r" and c: "isDigit c" and all: "list_all isDigit p"
    by (cases p) (auto simp: isNumeric_def)
  have sign: "c \<noteq> CHR ''-''" "c \<noteq> CHR ''+''"
    using c by (auto simp: isDigit_def)
  have tw: "takeWhile isDigit p = p"
    using all by (simp add: list_all_iff)
  have dw: "dropWhile isWhiteSpace p = p"
    using p digit_not_white [OF c] by simp
  show ?thesis
    using sign tw p unfolding parseInt_def dw by (simp add: Let_def)
qed

lemma foldl_nines:
  "foldl (\<lambda>a c. 10 * a + digitValue c) a (replicate n CHR ''9'') + 1 = (a + 1) * 10 ^ n"
  by (induction n arbitrary: a) (simp_all add: digitValue_def algebra_simps)

lemma digitsValue_nines: "digitsValue (replicate n CHR ''9'') = 10 ^ n - 1"
  using foldl_nines [of 0 n] by (simp add: digitsValue_def)

lemma parseInt_huge: "parseInt (replicate 310 CHR ''9'') = PosInf"
proof -
  have "isNumeric (replicate 310 CHR ''9'')"
    by (simp add: isNumeric_def isDigit_def list_all_iff)
  moreover have "(2::rat) ^ 1024 \<le> of_nat (10 ^ 310 - 1)"
    by simp
  then have "fl (of_nat (10 ^ 310 - 1)) = PosInf"
    by (rule fl_overflow)
  ultimately show ?thesis
    by (simp only: parseInt_numeric digitsValue_nines) simp
qed

lemma split_no_separator: "c \<notin> set xs \<Longrightarrow> split c xs = [xs]"
  by (induction xs) auto

lemma split_at_separator: "c \<notin> set xs \<Longrightarrow> split c (xs @ c # ys) = xs # split c ys"
  by (induction xs) auto

lemma split_hugeTime: "split CHR '':'' hugeTime = [replicate 310 CHR ''9'', ''00'']"
  unfolding hugeTime_def by (simp add: split_at_separator)

text \<open>
  In time-range mode an entry from this time to the same time gives the day the total
  \<open>NaN\<close>: both times are \<open>Infinity\<close> minutes, not in the wrong order, and their
  difference is \<open>NaN\<close>.
\<close>

lemma calculateDayHours_huge_is_NaN:
  "calculateDayHours [\<lparr>startTime = hugeTime, endTime = hugeTime, hours = None\<rparr>] False = NaN"
proof -
  have "hugeTime \<noteq> []" by (simp add: hugeTime_def)
  moreover have "parseInt ''00'' = Num 0"
    by (simp add: parseInt_def isWhiteSpace_def isDigit_def digitsValue_def digitValue_def)
  ultimately show ?thesis
    by (simp add: calculateDayHours_def rangeStep_def split_hugeTime parseInt_huge
        js_mul_def js_sub_def js_div_def)
qed

section \<open>Facts about dates and the week operations\<close>

lemma Day_affine: "Day (k * msPerDay + TimeWithinDay t) = k"
proof -
  have "0 \<le> TimeWithinDay t" "TimeWithinDay t < msPerDay"
    by (simp_all add: TimeWithinDay_def msPerDay_def)
  then show ?thesis
    unfolding Day_def by (simp add: msPerDay_def div_pos_pos_trivial)
qed


lemma Day_TimeWithinDay: "Day t * msPerDay + TimeWithinDay t = t"
  by (simp add: Day_def TimeWithinDay_def)

lemma TimeWithinDay_range: "0 \<le> TimeWithinDay t" "TimeWithinDay t < msPerDay"
  by (simp_all add: TimeWithinDay_def msPerDay_def)

lemma mondayOffset_range: "- 6 \<le> mondayOffset t \<and> mondayOffset t \<le> 0"
proof -
  have "0 \<le> WeekDay t" "WeekDay t < 7" by (simp_all add: WeekDay_def)
  then show ?thesis by (auto simp: mondayOffset_def)
qed






text \<open>
  \<open>getMonday\<close> in a time zone with a constant offset: the Monday midnight of the
  specification, or the Invalid Date when that is no time value.
\<close>

lemma getMonday_constant_zone:
  assumes zone: "\<forall>u b. localTZA B u b = c" and valid: "\<bar>t\<bar> \<le> maxTime"
  shows "getMonday B (Date t) = TimeClip (weekStart c t)"
proof -
  define lt where "lt = t + c"
  define a where "a = (Day lt + mondayOffset lt) * msPerDay + TimeWithinDay lt - c"
  have local: "LocalTime B u = u + c" "UTC B u = u - c" for u
    using zone by (simp_all add: LocalTime_def UTC_def)
  have copy: "copyDate (Date t) = Date t"
    using valid by (simp add: copyDate_def TimeClip_def)
  have ws: "weekStart c t = (Day lt + mondayOffset lt) * msPerDay - c"
    by (simp add: weekStart_def lt_def)
  have a_ge: "weekStart c t \<le> a"
    using TimeWithinDay_range(1) [of lt] by (simp add: ws a_def)
  have "(Day lt + mondayOffset lt) * msPerDay \<le> Day lt * msPerDay"
    using mondayOffset_range [of lt] by (simp add: msPerDay_def)
  then have a_le: "a \<le> t"
    using Day_TimeWithinDay [of lt] by (simp add: a_def lt_def)
  let ?w = "getDay B t"
  have "Day lt - (DateFromTime lt - 1)
      + (getDate B t - ?w + (if ?w = 0 then - 6 else 1) - 1) = Day lt + mondayOffset lt"
    by (simp add: mondayOffset_def getDay_def getDate_def local lt_def)
  then have set: "setDate B t (getDate B t - ?w + (if ?w = 0 then - 6 else 1)) = TimeClip a"
    by (simp only: setDate_def Let_def local lt_def [symmetric] a_def)
  have "Day (a + c) = Day lt + mondayOffset lt"
    by (simp add: a_def Day_affine)
  then have hours: "setHoursZero B a = TimeClip (weekStart c t)"
    by (simp add: setHoursZero_def local ws)
  have result: "getMonday B (Date t)
      = (case TimeClip a of InvalidDate \<Rightarrow> InvalidDate | Date u \<Rightarrow> setHoursZero B u)"
    by (simp only: getMonday_def copy Date.case Let_def set)
  show ?thesis
  proof (cases "\<bar>a\<bar> \<le> maxTime")
    case True
    then show ?thesis by (simp add: result TimeClip_def [of a] hours)
  next
    case False
    with a_le valid have "a < - maxTime" by linarith
    with a_ge have "\<not> \<bar>weekStart c t\<bar> \<le> maxTime" by linarith
    with False show ?thesis by (simp add: result TimeClip_def)
  qed
qed




lemma length_mapIndexed: "length (mapIndexed f i xs) = length xs"
  by (induction xs arbitrary: i) simp_all

lemma nth_mapIndexed: "n < length xs \<Longrightarrow> mapIndexed f i xs ! n = f (xs ! n) (i + n)"
proof (induction xs arbitrary: i n)
  case Nil
  then show ?case by simp
next
  case (Cons x xs)
  then show ?case by (cases n) simp_all
qed

lemma nth_toggleInputMode:
  "i < length w \<Longrightarrow>
   toggleInputMode i w ! i =
     (w ! i)\<lparr>useDirectHours := \<not> useDirectHours (w ! i),
             totalHours := Some (calculateDayHours (entries (w ! i)) (\<not> useDirectHours (w ! i)))\<rparr>"
  by (simp add: toggleInputMode_def nth_mapIndexed Let_def)

lemma length_toggleInputMode: "length (toggleInputMode i w) = length w"
  by (simp add: toggleInputMode_def length_mapIndexed)

lemma nth_toggleInputMode_other:
  "j < length w \<Longrightarrow> j \<noteq> i \<Longrightarrow> toggleInputMode i w ! j = w ! j"
  by (simp add: toggleInputMode_def nth_mapIndexed)

lemma getMonday_skipped_midnight:
  "getMonday dstEngine (Date 1717581600000) = Date sampleMonday
   \<and> WeekDay (LocalTime dstEngine sampleMonday) = 1
   \<and> TimeWithinDay (LocalTime dstEngine sampleMonday) = 3600000"
proof -
  have tza: "localTZA dstEngine t isUTC =
      (if isUTC then (if t < 1717372800000 then 0 else 3600000)
       else (if t < 1717376400000 then 0 else 3600000))" for t isUTC
    by (simp add: dstEngine_def sampleMonday_def)
  have lt: "LocalTime dstEngine 1717581600000 = 1717585200000"
    "LocalTime dstEngine 1717408800000 = 1717412400000"
    "LocalTime dstEngine 1717372800000 = 1717376400000"
    by (simp_all add: LocalTime_def tza)
  have day: "Day 1717585200000 = 19879" "TimeWithinDay 1717585200000 = 39600000"
    "Day 1717412400000 = 19877" "Day 1717376400000 = 19877"
    "TimeWithinDay 1717376400000 = 3600000"
    "WeekDay 1717585200000 = 3" "WeekDay 1717376400000 = 1"
    "DateFromTime 1717585200000 = 5"
    by code_simp+
  have get: "getDay dstEngine 1717581600000 = 3" "getDate dstEngine 1717581600000 = 5"
    by (simp_all add: getDay_def getDate_def lt day)
  have set: "setDate dstEngine 1717581600000 3 = Date 1717408800000"
    unfolding setDate_def Let_def lt day
    by (simp add: UTC_def tza TimeClip_def maxTime_def msPerDay_def)
  have hours: "setHoursZero dstEngine 1717408800000 = Date 1717372800000"
    unfolding setHoursZero_def lt day
    by (simp add: UTC_def tza TimeClip_def maxTime_def msPerDay_def)
  have "getMonday dstEngine (Date 1717581600000) = Date 1717372800000"
    by (simp add: getMonday_def Let_def copyDate_def TimeClip_def maxTime_def get set hours)
  then show ?thesis
    by (simp add: sampleMonday_def lt day)
qed

section \<open>Facts about the import\<close>

lemma collect_map_Throw_iff: "collect (map f xs) = Throw \<longleftrightarrow> (\<exists>x \<in> set xs. f x = Throw)"
  by (induction xs) (auto split: result.splits)

lemma importedEntry_Throw_iff: "importedEntry e = Throw \<longleftrightarrow> e = JNull"
  by (simp add: importedEntry_def split: result.splits)

lemma newDate_cases:
  "newDate B v = (if toPrimitiveThrows v then Throw else Ok (dateOf B v))"
  by (simp add: newDate_def)

lemma importedDay_Throw_iff:
  "importedDay B day = Throw \<longleftrightarrow>
   \<not> (\<not> toPrimitiveThrows (property ''date'' day)
      \<and> (\<exists>es. property ''entries'' day = Parsed (JArr es) \<and> JNull \<notin> set es))"
proof (cases "day = JNull")
  case True
  then show ?thesis by (simp add: importedDay_def)
next
  case False
  show ?thesis
  proof (cases "toPrimitiveThrows (property ''date'' day)")
    case True
    then show ?thesis using False by (simp add: importedDay_def newDate_def)
  next
    case date: False
    show ?thesis
    proof (cases "\<exists>es. property ''entries'' day = Parsed (JArr es)")
      case True
      then obtain es where es: "property ''entries'' day = Parsed (JArr es)" by blast
      have "collect (map importedEntry es) = Throw \<longleftrightarrow> JNull \<in> set es"
        by (simp add: collect_map_Throw_iff importedEntry_Throw_iff)
      then show ?thesis
        using False date es
        by (auto simp: importedDay_def newDate_def split: result.splits)
    next
      case none: False
      then show ?thesis
        using False date
        by (auto simp: importedDay_def newDate_def split: jsvalue.splits json.splits)
    qed
  qed
qed

lemma importedWeek_Throw_iff:
  "collect (map (importedDay B) days) = Throw \<longleftrightarrow>
   \<not> (\<forall>day \<in> set days. \<not> toPrimitiveThrows (property ''date'' day)
        \<and> (\<exists>es. property ''entries'' day = Parsed (JArr es) \<and> JNull \<notin> set es))"
  by (simp add: collect_map_Throw_iff importedDay_Throw_iff)

lemma getLocalStorageKey_None_iff: "getLocalStorageKey B d = None \<longleftrightarrow> d = InvalidDate"
  by (simp add: getLocalStorageKey_def split: Date.splits)

lemma handleFileSelect_alert_iff:
  "fst (handleFileSelect B (Some content) s) \<longleftrightarrow>
   \<not> (\<exists>data days. jsonParse B content = Some data
        \<and> truthy (property ''selectedMonday'' data)
        \<and> property ''weekData'' data = Parsed (JArr days)
        \<and> \<not> toPrimitiveThrows (property ''selectedMonday'' data)
        \<and> (\<forall>day \<in> set days. \<not> toPrimitiveThrows (property ''date'' day)
              \<and> (\<exists>es. property ''entries'' day = Parsed (JArr es) \<and> JNull \<notin> set es))
        \<and> dateOf B (property ''selectedMonday'' data) \<noteq> InvalidDate)"
proof (cases "jsonParse B content")
  case None
  then show ?thesis by (simp add: handleFileSelect_def)
next
  case (Some data)
  show ?thesis
  proof (cases "truthy (property ''selectedMonday'' data)")
    case False
    then show ?thesis using Some by (auto simp: handleFileSelect_def)
  next
    case True
    then have nn: "data \<noteq> JNull" by auto
    show ?thesis
    proof (cases "\<exists>days. property ''weekData'' data = Parsed (JArr days)")
      case False
      then show ?thesis
        using Some True nn
        by (auto simp: handleFileSelect_def split: jsvalue.splits json.splits)
    next
      case ex: True
      then obtain days where days: "property ''weekData'' data = Parsed (JArr days)" by blast
      show ?thesis
      proof (cases "toPrimitiveThrows (property ''selectedMonday'' data)")
        case throws: True
        then show ?thesis
          using Some True nn days by (simp add: handleFileSelect_def newDate_def)
      next
        case monday: False
        show ?thesis
        proof (cases "collect (map (importedDay B) days)")
          case Throw
          then show ?thesis
            using Some True nn days monday importedWeek_Throw_iff [of B days]
            by (simp add: handleFileSelect_def newDate_def)
        next
          case Foreign
          then have "collect (map (importedDay B) days) \<noteq> Throw" by simp
          then show ?thesis
            using Some True nn days monday Foreign importedWeek_Throw_iff [of B days]
            by (simp add: handleFileSelect_def newDate_def getLocalStorageKey_None_iff)
        next
          case (Ok w)
          then have "collect (map (importedDay B) days) \<noteq> Throw" by simp
          then show ?thesis
            using Some True nn days monday Ok importedWeek_Throw_iff [of B days]
            by (cases "dateOf B (property ''selectedMonday'' data)")
              (simp_all add: handleFileSelect_def newDate_def getLocalStorageKey_def)
        qed
      qed
    qed
  qed
qed

lemma handleFileSelect_invalid_unchanged:
  assumes "jsonParse B content = None
     \<or> (\<exists>data. jsonParse B content = Some data
          \<and> (\<not> truthy (property ''selectedMonday'' data)
             \<or> (\<forall>days. property ''weekData'' data \<noteq> Parsed (JArr days))
             \<or> toPrimitiveThrows (property ''selectedMonday'' data)
             \<or> (\<exists>days. property ''weekData'' data = Parsed (JArr days)
                  \<and> collect (map (importedDay B) days) = Throw)))"
  shows "handleFileSelect B (Some content) s = (True, Ok s)"
  using assms
  by (auto simp: handleFileSelect_def newDate_def split: option.splits jsvalue.splits json.splits)

text \<open>What the load effect does where C4 holds: the defaults of a day, and a parse failure.\<close>

lemma sanitizeDay_defaults:
  assumes "\<not> toStringThrows v"
  shows "sanitizeDay B (JObj [(''date'', v), (''totalHours'', JNum (Num (D 8)))])
     = Ok \<lparr>date = dateOf B (Parsed v),
          entries = [\<lparr>startTime = [], endTime = [], hours = None\<rparr>],
          totalHours = Some (Num (D 8)), useDirectHours = False\<rparr>"
  using assms
  by (simp add: sanitizeDay_def extraProperties_def storedEntries_def storedMode_def
      parseFloatValue_def newDate_def)

lemma loadEffect_parse_failure:
  assumes "getLocalStorageKey B (selectedMonday s) = Some key"
    and "getLocalStorage (localStorage s) key = Some storedData"
    and "jsonParse B storedData = None"
  shows "loadEffect B s = Ok (s\<lparr>weekData := newWeek B (selectedMonday s)\<rparr>)"
    and "length (newWeek B (selectedMonday s)) = 7"
  using assms
  by (simp_all add: loadEffect_def parseStoredWeek_def initializeNewWeek_def newWeek_def)

text \<open>
  A stored day that is an array is no day record after the load: its \<open>entries\<close> is the
  method of arrays. And a stored day whose date has a key \<open>toString\<close> makes the load
  throw, so that the week is initialized anew.
\<close>

lemma sanitizeDay_array: "sanitizeDay B (JArr []) = Foreign"
  by (simp add: sanitizeDay_def extraProperties_def storedEntries_def storedMode_def
      parseFloatValue_def newDate_def)

lemma sanitizeDay_date_throws:
  "sanitizeDay B (JObj [(''date'', JObj [(''toString'', JNum (Num 0))])]) = Throw"
  by (simp add: sanitizeDay_def newDate_def)

section \<open>Facts about the store and clear-all\<close>

lemma clearing_loop:
  "foldl (\<lambda>st key. if startsWith key p then removeLocalStorage key st else st) st keys
   = filter (\<lambda>kv. \<not> (fst kv \<in> set keys \<and> startsWith (fst kv) p)) st"
proof (induction keys arbitrary: st)
  case Nil
  then show ?case by simp
next
  case (Cons k keys)
  show ?case
    by (auto simp: Cons.IH removeLocalStorage_def intro!: filter_cong)
qed

lemma clearing_all_keys:
  "foldl (\<lambda>st key. if startsWith key p then removeLocalStorage key st else st) st (map fst st)
   = filter (\<lambda>kv. \<not> startsWith (fst kv) p) st"
  unfolding clearing_loop by (rule filter_cong) auto

lemma clearAll_eq:
  "clearAll B s =
     \<lparr>selectedMonday = getMonday B (Date (currentTime B)),
      weekData = newWeek B (getMonday B (Date (currentTime B))),
      hourlyWage = Num 0,
      localStorage = clearedStorage (localStorage s)\<rparr>"
  by (simp add: clearAll_def Let_def clearing_all_keys newWeek_def clearedStorage_def
      removeLocalStorage_def)

lemma map_of_filter_None: "(\<And>v. \<not> P (k, v)) \<Longrightarrow> map_of (filter P xs) k = None"
  by (induction xs) auto

lemma getLocalStorage_cleared_prefix:
  "startsWith k TIMESHEET_PREFIX \<Longrightarrow> getLocalStorage (clearedStorage st) k = None"
  unfolding getLocalStorage_def clearedStorage_def filter_filter
  by (rule map_of_filter_None) simp

lemma getLocalStorage_cleared_wage: "getLocalStorage (clearedStorage st) WAGE_KEY = None"
  unfolding getLocalStorage_def clearedStorage_def filter_filter
  by (rule map_of_filter_None) simp

lemma keys_cleared:
  "k \<in> set (map fst (clearedStorage st)) \<Longrightarrow> \<not> startsWith k TIMESHEET_PREFIX \<and> k \<noteq> WAGE_KEY"
  by (auto simp: clearedStorage_def)

lemma getLocalStorage_set_same: "getLocalStorage (setLocalStorage k v st) k = Some v"
proof -
  have "map_of (filter (\<lambda>kv. fst kv \<noteq> k) st) k = None"
    by (rule map_of_filter_None) simp
  then show ?thesis
    by (simp add: getLocalStorage_def setLocalStorage_def removeLocalStorage_def map_add_def)
qed

lemma map_of_filter_other: "k' \<noteq> k \<Longrightarrow> map_of (filter (\<lambda>kv. fst kv \<noteq> k) st) k' = map_of st k'"
  by (induction st) auto

lemma getLocalStorage_set_other:
  "k' \<noteq> k \<Longrightarrow> getLocalStorage (setLocalStorage k v st) k' = getLocalStorage st k'"
  by (auto simp: getLocalStorage_def setLocalStorage_def removeLocalStorage_def map_add_def
      map_of_filter_other split: option.splits)

lemma keys_set: "set (map fst (setLocalStorage k v st)) = insert k (set (map fst st))"
  by (auto simp: setLocalStorage_def removeLocalStorage_def)

lemma startsWith_prefix: "startsWith (p @ x) p"
  by (simp add: startsWith_def)

lemma getLocalStorageKey_Date:
  "getLocalStorageKey B (Date t) = Some (TIMESHEET_PREFIX @ split CHR ''T'' (isoString B t) ! 0)"
  by (simp add: getLocalStorageKey_def)

lemma wage_key_no_prefix: "\<not> startsWith WAGE_KEY TIMESHEET_PREFIX"
  by (simp add: startsWith_def WAGE_KEY_def TIMESHEET_PREFIX_def)

lemma length_newWeek: "length (newWeek B m) = 7"
  by (simp add: newWeek_def)

lemma newWeek_days:
  "d \<in> set (newWeek B m) \<Longrightarrow> entries d = [emptyEntry] \<and> totalHours d = Some (Num 0) \<and> \<not> useDirectHours d"
  by (auto simp: newWeek_def)

lemma newWeek_not_Nil: "newWeek B m \<noteq> []"
  using length_newWeek [of B m] by auto

lemma clearAllRendered_eq:
  fixes B s m
  defines "key \<equiv> TIMESHEET_PREFIX @ split CHR ''T'' (isoString B m) ! 0"
  defines "wtext \<equiv> jsonStringify B (weekToJSON B (newWeek B (Date m)))"
  defines "st \<equiv> setLocalStorage key wtext (clearedStorage (localStorage s))"
  assumes monday: "getMonday B (Date (currentTime B)) = Date m"
  shows "clearAllRendered B s =
     Ok \<lparr>selectedMonday = Date m, weekData = newWeek B (Date m), hourlyWage = Num 0,
         localStorage = setLocalStorage key wtext
           (if hourlyWage s \<noteq> Num 0 then setLocalStorage WAGE_KEY (numberToString B (Num 0)) st
            else st)\<rparr>"
proof -
  have none: "getLocalStorage (clearedStorage (localStorage s)) key = None"
    unfolding key_def by (rule getLocalStorage_cleared_prefix) (rule startsWith_prefix)
  show ?thesis
    unfolding clearAllRendered_def effectsAfter_def clearAll_eq monday
    using none
    by (simp add: loadEffect_def saveEffect_def wageEffect_def getLocalStorageKey_Date
        initializeNewWeek_def newWeek_not_Nil key_def [symmetric]
        wtext_def [symmetric] st_def [symmetric])
qed

text \<open>When the Monday of the present week is no valid date, the effects after \<open>clearAll\<close> throw.\<close>

lemma clearAllRendered_invalid:
  "getMonday B (Date (currentTime B)) = InvalidDate \<Longrightarrow> clearAllRendered B s = Throw"
  by (simp add: clearAllRendered_def effectsAfter_def clearAll_eq loadEffect_def
      getLocalStorageKey_def)

section \<open>Facts about export followed by import\<close>

lemma collect_map_Ok: "(\<And>x. x \<in> set xs \<Longrightarrow> f x = Ok (g x)) \<Longrightarrow> collect (map f xs) = Ok (map g xs)"
  by (induction xs) simp_all

lemma importedEntry_entryToJSON: "importedEntry (entryToJSON e) = Ok (reimportedEntry e)"
proof (cases "hours e")
  case None
  then show ?thesis
    by (simp add: importedEntry_def entryToJSON_def reimportedEntry_def importedTime_def
        importedHours_def)
next
  case (Some n)
  then show ?thesis
    by (cases n)
      (simp_all add: importedEntry_def entryToJSON_def reimportedEntry_def importedTime_def
        importedHours_def)
qed

lemma property_dayToJSON:
  "property ''date'' (dayToJSON B d) = Parsed (dateToJSON B (date d))"
  "property ''entries'' (dayToJSON B d) = Parsed (JArr (map entryToJSON (entries d)))"
  "property ''totalHours'' (dayToJSON B d)
     = (case totalHours d of None \<Rightarrow> Undefined | Some n \<Rightarrow> Parsed (numToJSON n))"
  "property ''useDirectHours'' (dayToJSON B d) = Parsed (JBool (useDirectHours d))"
  by (cases "totalHours d"; simp add: dayToJSON_def)+

lemma dateToJSON_converts: "\<not> toStringThrows (dateToJSON B d)"
  by (simp add: dateToJSON_def split: Date.splits)

lemma dayToJSON_no_extra:
  "\<not> extraProperties [''date'', ''entries'', ''totalHours'', ''useDirectHours''] (dayToJSON B d)"
  by (cases "totalHours d") (simp_all add: dayToJSON_def extraProperties_def)

lemma dayToJSON_not_null: "dayToJSON B d \<noteq> JNull"
  by (simp add: dayToJSON_def)

lemma importedDay_dayToJSON:
  assumes "totalHours d = Some (Num r)"
  shows "importedDay B (dayToJSON B d) = Ok (reimportedDay B d)"
proof -
  have "collect (map importedEntry (map entryToJSON (entries d))) = Ok (map reimportedEntry (entries d))"
    unfolding map_map by (rule collect_map_Ok) (simp add: importedEntry_entryToJSON)
  then show ?thesis
    using assms
    by (simp add: importedDay_def property_dayToJSON dayToJSON_no_extra dayToJSON_not_null
        importedTotal_def importedMode_def reimportedDay_def newDate_def dateToJSON_converts)
qed

lemma importedWeek_exported:
  assumes "\<forall>d \<in> set w. \<exists>r. totalHours d = Some (Num r)"
  shows "collect (map (importedDay B) (map (dayToJSON B) w)) = Ok (map (reimportedDay B) w)"
  unfolding map_map
proof (rule collect_map_Ok)
  fix d
  assume "d \<in> set w"
  then obtain r where "totalHours d = Some (Num r)"
    using assms by blast
  then show "(importedDay B \<circ> dayToJSON B) d = Ok (reimportedDay B d)"
    by (simp add: importedDay_dayToJSON)
qed

lemma handleFileSelect_exported:
  assumes "selectedMonday s = Date t"
    and "jsonParse B (downloadJSON B s) = Some (exportDocument B s)"
    and "isoString B t \<noteq> []"
    and "dateOf B (Parsed (JStr (isoString B t))) = Date t"
    and "\<forall>d \<in> set (weekData s). \<exists>r. totalHours d = Some (Num r)"
  shows "handleFileSelect B (Some (downloadJSON B s)) s0 =
     (False, Ok (s0\<lparr>selectedMonday := Date t,
                    weekData := map (reimportedDay B) (weekData s),
                    localStorage :=
                      setLocalStorage (TIMESHEET_PREFIX @ split CHR ''T'' (isoString B t) ! 0)
                        (jsonStringify B (weekToJSON B (map (reimportedDay B) (weekData s))))
                        (localStorage s0)\<rparr>))"
  using assms importedWeek_exported [of "weekData s" B]
  by (simp add: handleFileSelect_def exportDocument_def dateToJSON_def weekToJSON_def
      getLocalStorageKey_Date newDate_def)

lemma storedEntry_reimported: "storedEntry (entryToJSON (reimportedEntry e)) = Ok (reimportedEntry e)"
  by (cases "hours e" rule: option.exhaust; (cases "the (hours e)")?)
    (auto simp: storedEntry_def entryToJSON_def reimportedEntry_def extraProperties_def
      split: option.splits jsnum.splits)

lemma sanitizeDay_reimported:
  assumes "totalHours d = Some (Num r)"
  shows "sanitizeDay B (dayToJSON B (reimportedDay B d))
    = Ok ((reimportedDay B d)\<lparr>date := dateOf B (Parsed (dateToJSON B (date (reimportedDay B d))))\<rparr>)"
proof -
  have "collect (map storedEntry (map entryToJSON (map reimportedEntry (entries d))))
      = Ok (map reimportedEntry (entries d))"
    unfolding map_map
    by (rule collect_map_Ok) (simp add: storedEntry_reimported)
  then show ?thesis
    using assms
    by (simp add: sanitizeDay_def property_dayToJSON dayToJSON_no_extra dayToJSON_not_null
        storedEntries_def storedMode_def reimportedDay_def parseFloatValue_def newDate_def
        dateToJSON_converts)
qed
lemma saveEffect_Ok:
  assumes "selectedMonday s = Date t"
  shows "\<exists>x. saveEffect B s = Ok x \<and> selectedMonday x = selectedMonday s
    \<and> weekData x = weekData s \<and> hourlyWage x = hourlyWage s"
  using assms by (simp add: saveEffect_def getLocalStorageKey_Date)

lemma totalHours_reimportedDay: "totalHours (reimportedDay B d) = totalHours d"
  by (simp add: reimportedDay_def)

lemma effectsAfter_import:
  fixes B s s0 t
  defines "w \<equiv> map (reimportedDay B) (weekData s)"
  defines "key \<equiv> TIMESHEET_PREFIX @ split CHR ''T'' (isoString B t) ! 0"
  defines "s1 \<equiv> s0\<lparr>selectedMonday := Date t, weekData := w,
      localStorage := setLocalStorage key (jsonStringify B (weekToJSON B w)) (localStorage s0)\<rparr>"
  assumes numeric: "\<forall>d \<in> set (weekData s). \<exists>r. totalHours d = Some (Num r)"
    and nonempty: "jsonStringify B (weekToJSON B w) \<noteq> []"
    and parse: "jsonParse B (jsonStringify B (weekToJSON B w)) = Some (weekToJSON B w)"
  shows "\<exists>s2. effectsAfter B False s1 = Ok s2 \<and> selectedMonday s2 = Date t
    \<and> map totalHours (weekData s2) = map totalHours (weekData s)
    \<and> map useDirectHours (weekData s2) = map useDirectHours (weekData s)
    \<and> hourlyWage s2 = hourlyWage s0"
proof -
  define reload :: "DayEntry \<Rightarrow> DayEntry" where "reload = (\<lambda>d. d\<lparr>date := dateOf B (Parsed (dateToJSON B (date d)))\<rparr>)"
  have "collect (map (sanitizeDay B) (map (dayToJSON B) w)) = Ok (map reload w)"
    unfolding map_map w_def
  proof (rule collect_map_Ok)
    fix d
    assume "d \<in> set (weekData s)"
    then obtain r where "totalHours d = Some (Num r)"
      using numeric by blast
    then show "(sanitizeDay B \<circ> (dayToJSON B \<circ> reimportedDay B)) d = Ok ((reload \<circ> reimportedDay B) d)"
      by (simp add: sanitizeDay_reimported reload_def)
  qed
  then have stored: "parseStoredWeek B (jsonStringify B (weekToJSON B w)) = Ok (map reload w)"
    using parse by (simp add: parseStoredWeek_def weekToJSON_def)
  have load: "loadEffect B s1 = Ok (s1\<lparr>weekData := map reload w\<rparr>)"
    using nonempty stored
    by (simp add: loadEffect_def s1_def getLocalStorageKey_Date key_def [symmetric]
        getLocalStorage_set_same)
  have monday: "selectedMonday s1 = Date t"
    by (simp add: s1_def)
  obtain x where x: "saveEffect B s1 = Ok x" "selectedMonday x = Date t" "hourlyWage x = hourlyWage s0"
    using saveEffect_Ok [OF monday, of B] by (auto simp: s1_def)
  have "selectedMonday (x\<lparr>weekData := map reload w\<rparr>) = Date t"
    using x by simp
  from saveEffect_Ok [OF this, of B]
  obtain y where y: "saveEffect B (x\<lparr>weekData := map reload w\<rparr>) = Ok y"
    "selectedMonday y = Date t" "weekData y = map reload w" "hourlyWage y = hourlyWage s0"
    using x by auto
  have totals: "map totalHours (map reload w) = map totalHours (weekData s)"
    unfolding w_def map_map
  proof (rule map_cong [OF refl])
    fix d
    assume "d \<in> set (weekData s)"
    then obtain r where "totalHours d = Some (Num r)"
      using numeric by blast
    then show "(totalHours \<circ> (reload \<circ> reimportedDay B)) d = totalHours d"
      by (simp add: reload_def reimportedDay_def)
  qed
  have modes: "map useDirectHours (map reload w) = map useDirectHours (weekData s)"
    by (simp add: w_def reload_def reimportedDay_def)
  show ?thesis
    using load x y totals modes
    by (simp add: effectsAfter_def)
qed

section \<open>Facts about the sample values\<close>

lemma sample_file_texts:
  "fileText ''null'' \<noteq> fileText ''8''"
  "jsonParse sampleEngine (fileText ''null'') = Some (fileDocument JNull)"
  "jsonParse sampleEngine (fileText ''8'') = Some (fileDocument (JNum (Num (D 8))))"
  "jsonParse sampleEngine weekText = Some (weekDocument (JNum (Num (D 8))))"
  by (simp_all add: sampleEngine_def fileText_def noDayFile_def noDateFile_def noTotalText_def
      weekText_def)

lemma sample_engine_dates:
  "isoString sampleEngine t = sampleISO"
  "dateOf sampleEngine (Parsed (JStr sampleISO)) = Date sampleMonday"
  "sampleISO \<noteq> []"
  by (simp_all add: sampleEngine_def sampleISO_def)

lemma sample_exports:
  "exportDocument sampleEngine nanState = fileDocument JNull"
  "exportDocument sampleEngine sampleState = fileDocument (JNum (Num (D 8)))"
  "weekToJSON sampleEngine [sampleDay] = weekDocument (JNum (Num (D 8)))"
  by (simp_all add: exportDocument_def nanState_def sampleState_def nanDay_def sampleDay_def
      fileDocument_def weekDocument_def weekToJSON_def dayToJSON_def entryToJSON_def
      dateToJSON_def sample_engine_dates)

lemma sample_pretty:
  "jsonStringifyPretty sampleEngine j =
     (if j = fileDocument (JNum (Num (D 8))) then fileText ''8''
      else if j = fileDocument JNull then fileText ''null'' else ''{...}'')"
  by (simp add: sampleEngine_def)

lemma sample_downloads:
  "downloadJSON sampleEngine nanState = fileText ''null''"
  "downloadJSON sampleEngine sampleState = fileText ''8''"
proof -
  have "fileDocument JNull \<noteq> fileDocument (JNum (Num (D 8)))"
    by (simp add: fileDocument_def weekDocument_def)
  then show "downloadJSON sampleEngine nanState = fileText ''null''"
    by (simp add: downloadJSON_def sample_exports sample_pretty)
  show "downloadJSON sampleEngine sampleState = fileText ''8''"
    by (simp add: downloadJSON_def sample_exports sample_pretty)
qed

lemma sample_reimported: "reimportedDay sampleEngine sampleDay = sampleDay"
  by (simp add: reimportedDay_def sampleDay_def reimportedEntry_def
      dateToJSON_def sample_engine_dates)

lemma sample_zone: "\<forall>u b. localTZA sampleEngine u b = 0"
  by (simp add: sampleEngine_def)

lemma sample_week_start:
  "weekStart 0 1717581600000 = 1717372800000"
  "weekStart 0 1717590000000 = 1717372800000"
  "weekStart 0 (- 8640000000000000) = - 8640000086400000"
  "WeekDay (- 8640000000000000) = 2"
  "Day 1717581600000 = Day 1717590000000"
  by code_simp+

lemma sample_today: "getMonday sampleEngine (Date (currentTime sampleEngine)) = Date sampleMonday"
proof -
  have "currentTime sampleEngine = 1717581600000"
    by (simp add: sampleEngine_def)
  then show ?thesis
    by (simp add: getMonday_constant_zone [OF sample_zone] maxTime_def sample_week_start
        TimeClip_def sampleMonday_def)
qed


section \<open>Claims about the hour aggregation\<close>

text \<open>
  C1 at one entry, from \<open>9x:00\<close> to \<open>10:00\<close>: the start is not made of two numeric parts,
  so by the claim the entry contributes 0, and the code means the same (it returns the
  total unchanged under the comments \<open>Malformed time string\<close> and \<open>Parts are not numbers\<close>).
  But its test of the parts is \<open>isNaN(parseInt(part, 10))\<close>, and \<open>parseInt\<close> reads the
  hour 9 at the beginning of \<open>9x\<close>: \<open>calculateDayHours\<close> counts one hour.
\<close>

theorem calculateDayHours_malformed_start_counted:
  "claimedContribution \<lparr>startTime = ''9x:00'', endTime = ''10:00'', hours = None\<rparr> = 0
   \<and> calculateDayHours [\<lparr>startTime = ''9x:00'', endTime = ''10:00'', hours = None\<rparr>] False
       = Num (D 1)"
  by (simp add: claimedContribution_def minutesOf_def isNumeric_def isDigit_def
      calculateDayHours_def rangeStep_def parseInt_def isWhiteSpace_def digitsValue_def
      digitValue_def js_mul_def js_div_def js_sub_def)

text \<open>
  C2 at one day in direct-hours mode: the text \<open>-1\<close> typed into the hours field of its
  entry is stored as the number -1 (\<open>parseFloat(value) || 0\<close>), and \<open>calculateDayHours\<close>
  gives the day the total -1, which is not non-negative. (In time-range mode the total is
  no non-negative number either for the entry of \<open>calculateDayHours_huge_is_NaN\<close>.)
\<close>

theorem calculateDayHours_negative_total:
  "handleTimeChange (\<lambda>s. if s = ''-1'' then Num (D (- 1)) else NaN) 0 0 HoursField ''-1''
     [\<lparr>date = Date 0, entries = [emptyEntry], totalHours = Some (Num 0), useDirectHours = True\<rparr>]
     = [\<lparr>date = Date 0,
         entries = [\<lparr>startTime = '''', endTime = '''', hours = Some (Num (D (- 1)))\<rparr>],
         totalHours = Some (Num (D (- 1))), useDirectHours = True\<rparr>]
   \<and> calculateDayHours [\<lparr>startTime = '''', endTime = '''', hours = Some (Num (D (- 1)))\<rparr>] True
       = Num (D (- 1))
   \<and> \<not> nonNegative (Num (D (- 1)))"
  by (simp add: handleTimeChange_def updateEntry_def orZero_def emptyEntry_def
      calculateDayHours_def directStep_def nonNegative_def)

section \<open>Claims about the week operations\<close>

text \<open>
  C6, as stated, at one day: a day with no entries and a stored total of 5 (a record
  that the import or the load from storage accepts as it is) has the total 0 after two
  toggles.
\<close>

theorem toggleInputMode_twice_counterexample:
  "totalHours (toggleInputMode 0 (toggleInputMode 0
      [\<lparr>date = Date 0, entries = [], totalHours = Some (Num (D 5)), useDirectHours = False\<rparr>]) ! 0) = Some (Num 0)
   \<and> totalHours ([\<lparr>date = Date 0, entries = [], totalHours = Some (Num (D 5)), useDirectHours = False\<rparr>] ! 0) = Some (Num (D 5))"
  by (simp add: toggleInputMode_def calculateDayHours_def)

text \<open>
  C6, amended. A single toggle of day \<open>i\<close> keeps its entries and date, flips its mode and
  sets its total to \<open>calculateDayHours\<close> of the same entries under the new mode; the other
  days are unchanged. Two toggles in succession restore the mode and set the total to
  \<open>calculateDayHours\<close> of the entries under the original mode, which is the original total
  for every day whose total was \<open>calculateDayHours\<close> of its entries and mode before.
\<close>

theorem toggleInputMode_round_trip:
  assumes "i < length w"
  shows "entries (toggleInputMode i w ! i) = entries (w ! i)
    \<and> date (toggleInputMode i w ! i) = date (w ! i)
    \<and> useDirectHours (toggleInputMode i w ! i) = (\<not> useDirectHours (w ! i))
    \<and> totalHours (toggleInputMode i w ! i)
        = Some (calculateDayHours (entries (w ! i)) (\<not> useDirectHours (w ! i)))
    \<and> (\<forall>j < length w. j \<noteq> i \<longrightarrow> toggleInputMode i w ! j = w ! j)
    \<and> toggleInputMode i (toggleInputMode i w) ! i
        = (w ! i)\<lparr>totalHours := Some (calculateDayHours (entries (w ! i)) (useDirectHours (w ! i)))\<rparr>
    \<and> (dayInvariant (w ! i) \<longrightarrow> toggleInputMode i (toggleInputMode i w) = w)"
proof -
  let ?t = "toggleInputMode i w"
  have one: "?t ! i = (w ! i)\<lparr>useDirectHours := \<not> useDirectHours (w ! i),
      totalHours := Some (calculateDayHours (entries (w ! i)) (\<not> useDirectHours (w ! i)))\<rparr>"
    using assms by (rule nth_toggleInputMode)
  have len: "i < length ?t"
    using assms by (simp add: length_toggleInputMode)
  have two: "toggleInputMode i ?t ! i
      = (w ! i)\<lparr>totalHours := Some (calculateDayHours (entries (w ! i)) (useDirectHours (w ! i)))\<rparr>"
    unfolding nth_toggleInputMode [OF len] one by simp
  have others: "\<forall>j < length w. j \<noteq> i \<longrightarrow> ?t ! j = w ! j"
    by (simp add: nth_toggleInputMode_other)
  have restored: "toggleInputMode i ?t = w" if inv: "dayInvariant (w ! i)"
  proof (rule nth_equalityI)
    show "length (toggleInputMode i ?t) = length w"
      by (simp add: length_toggleInputMode)
  next
    fix j
    assume "j < length (toggleInputMode i ?t)"
    then have j: "j < length w"
      by (simp add: length_toggleInputMode)
    show "toggleInputMode i ?t ! j = w ! j"
    proof (cases "j = i")
      case True
      then show ?thesis
        using two inv by (simp add: dayInvariant_def)
    next
      case False
      then show ?thesis
        using j by (simp add: nth_toggleInputMode_other length_toggleInputMode)
    qed
  qed
  show ?thesis
    using one two others restored by simp
qed

theorem toggleInputMode_round_trip_witness:
  "(0::nat) < length [\<lparr>date = Date 0,
        entries = [\<lparr>startTime = ''09:00'', endTime = ''17:00'', hours = Some (Num (D 3))\<rparr>],
        totalHours = Some (Num (D 8)), useDirectHours = False\<rparr>]
   \<and> dayInvariant \<lparr>date = Date 0,
        entries = [\<lparr>startTime = ''09:00'', endTime = ''17:00'', hours = Some (Num (D 3))\<rparr>],
        totalHours = Some (Num (D 8)), useDirectHours = False\<rparr>
   \<and> totalHours (toggleInputMode 0 [\<lparr>date = Date 0,
        entries = [\<lparr>startTime = ''09:00'', endTime = ''17:00'', hours = Some (Num (D 3))\<rparr>],
        totalHours = Some (Num (D 8)), useDirectHours = False\<rparr>] ! 0) = Some (Num (D 3))
   \<and> toggleInputMode 0 (toggleInputMode 0 [\<lparr>date = Date 0,
        entries = [\<lparr>startTime = ''09:00'', endTime = ''17:00'', hours = Some (Num (D 3))\<rparr>],
        totalHours = Some (Num (D 8)), useDirectHours = False\<rparr>])
      = [\<lparr>date = Date 0,
        entries = [\<lparr>startTime = ''09:00'', endTime = ''17:00'', hours = Some (Num (D 3))\<rparr>],
        totalHours = Some (Num (D 8)), useDirectHours = False\<rparr>]"
  using toggleInputMode_round_trip [of 0 "[\<lparr>date = Date 0,
        entries = [\<lparr>startTime = ''09:00'', endTime = ''17:00'', hours = Some (Num (D 3))\<rparr>],
        totalHours = Some (Num (D 8)), useDirectHours = False\<rparr>]"]
  by (simp add: dayInvariant_def calculateDayHours_def rangeStep_def directStep_def
      parseInt_def isWhiteSpace_def isDigit_def digitsValue_def digitValue_def
      js_mul_def js_div_def js_sub_def)




text \<open>
  C10. A day whose total equals \<open>calculateDayHours\<close> of its entries and mode still has
  this property after each of the four operations, whichever day and entry the operation
  addresses: editing an entry field, toggling the mode, adding an entry and deleting an
  entry; the operations keep the number of days. \<open>addTimeEntry\<close> keeps the stored total,
  and that is right because the appended blank entry adds 0 in both modes.
\<close>

theorem week_operations_preserve_invariant:
  assumes "j < length w" and "dayInvariant (w ! j)"
  shows "dayInvariant (handleTimeChange pf i k field v w ! j)
    \<and> dayInvariant (toggleInputMode i w ! j)
    \<and> dayInvariant (addTimeEntry i w ! j)
    \<and> dayInvariant (deleteTimeEntry i k w ! j)
    \<and> length (handleTimeChange pf i k field v w) = length w
    \<and> length (toggleInputMode i w) = length w
    \<and> length (addTimeEntry i w) = length w
    \<and> length (deleteTimeEntry i k w) = length w
    \<and> calculateDayHours (es @ [emptyEntry]) False = calculateDayHours es False
    \<and> calculateDayHours (es @ [emptyEntry]) True = calculateDayHours es True"
proof -
  have edit: "dayInvariant (handleTimeChange pf i k field v w ! j)"
    using assms by (simp add: handleTimeChange_def nth_mapIndexed dayInvariant_def Let_def)
  have toggle: "dayInvariant (toggleInputMode i w ! j)"
    using assms by (simp add: toggleInputMode_def nth_mapIndexed dayInvariant_def Let_def)
  have add: "dayInvariant (addTimeEntry i w ! j)"
    using assms
    by (auto simp: addTimeEntry_def nth_mapIndexed dayInvariant_def calculateDayHours_snoc_empty)
  have delete: "dayInvariant (deleteTimeEntry i k w ! j)"
    using assms by (simp add: deleteTimeEntry_def nth_mapIndexed dayInvariant_def Let_def)
  have lengths: "length (handleTimeChange pf i k field v w) = length w"
    "length (toggleInputMode i w) = length w"
    "length (addTimeEntry i w) = length w"
    "length (deleteTimeEntry i k w) = length w"
    by (simp_all add: handleTimeChange_def toggleInputMode_def addTimeEntry_def
        deleteTimeEntry_def length_mapIndexed)
  show ?thesis
    using edit toggle add delete lengths by (simp add: calculateDayHours_snoc_empty)
qed

theorem week_operations_preserve_invariant_witness:
  "dayInvariant sampleDay
   \<and> addTimeEntry 0 [sampleDay] ! 0 = sampleDay\<lparr>entries := entries sampleDay @ [emptyEntry]\<rparr>
   \<and> dayInvariant (addTimeEntry 0 [sampleDay] ! 0)
   \<and> dayInvariant (deleteTimeEntry 0 0 [sampleDay] ! 0)
   \<and> dayInvariant (toggleInputMode 0 [sampleDay] ! 0)
   \<and> dayInvariant (handleTimeChange (\<lambda>_. NaN) 0 0 EndTimeField ''18:30'' [sampleDay] ! 0)"
proof -
  have inv: "dayInvariant sampleDay"
    by (simp add: dayInvariant_def sampleDay_def calculateDayHours_def rangeStep_def
        parseInt_def isWhiteSpace_def isDigit_def digitsValue_def digitValue_def
        js_mul_def js_div_def js_sub_def)
  then have "dayInvariant ([sampleDay] ! 0)"
    by simp
  from week_operations_preserve_invariant [OF _ this, of "\<lambda>_. NaN" 0 0 EndTimeField "''18:30''" "[]"]
  show ?thesis
    using inv by (simp add: addTimeEntry_def)
qed

section \<open>Claims about the import and the load\<close>

text \<open>
  C3, as stated, at one file: the document
  \<open>{"selectedMonday":"2024-06-03T00:00:00.000Z","weekData":[]}\<close> has no day record, and
  the import handler accepts it: no alert, the week of the component is the empty array
  and it is stored under the key of 2024-06-03.
\<close>

theorem handleFileSelect_no_day_counterexample:
  "jsonParse sampleEngine noDayFile
     = Some (JObj [(''selectedMonday'', JStr ''2024-06-03T00:00:00.000Z''), (''weekData'', JArr [])])
   \<and> handleFileSelect sampleEngine (Some noDayFile) sampleState
     = (False, Ok (sampleState\<lparr>weekData := [],
          localStorage := [(''timesheet-hourly-wage'', ''20''),
                           (''timesheet-data-2024-05-27'', ''[]''),
                           (''timesheet-data-2024-06-03'', ''[]'')]\<rparr>))"
  by (simp add: sampleEngine_def noDayDocument_def sampleISO_def sampleState_def
      handleFileSelect_def importedDay_def getLocalStorageKey_def TIMESHEET_PREFIX_def
      setLocalStorage_def removeLocalStorage_def weekToJSON_def sampleMonday_def newDate_def)

text \<open>
  C3, amended. The import handler accepts a file (finishes without the alert) only if
  its text parses to a document with a truthy \<open>selectedMonday\<close> that \<open>new Date\<close> can
  convert (it is no object with a \<open>toString\<close> key of its own, and no array that holds
  one) and with a \<open>weekData\<close> array, of any length, each of whose elements has a \<open>date\<close>
  that \<open>new Date\<close> can convert and an \<open>entries\<close> array without \<open>null\<close> in it; and it
  accepts every such document whose \<open>selectedMonday\<close> is a valid date for \<open>new Date\<close>. It
  rejects every document without a truthy \<open>selectedMonday\<close> or without a \<open>weekData\<close>
  array: the alert is shown and the state is as before.
\<close>

theorem handleFileSelect_accepts_iff:
  "(fst (handleFileSelect B (Some content) s) = False \<longrightarrow>
     (\<exists>data days. jsonParse B content = Some data
        \<and> truthy (property ''selectedMonday'' data)
        \<and> property ''weekData'' data = Parsed (JArr days)
        \<and> \<not> toPrimitiveThrows (property ''selectedMonday'' data)
        \<and> (\<forall>day \<in> set days. \<not> toPrimitiveThrows (property ''date'' day)
              \<and> (\<exists>es. property ''entries'' day = Parsed (JArr es) \<and> JNull \<notin> set es))))
   \<and> ((\<exists>data days. jsonParse B content = Some data
        \<and> truthy (property ''selectedMonday'' data)
        \<and> property ''weekData'' data = Parsed (JArr days)
        \<and> \<not> toPrimitiveThrows (property ''selectedMonday'' data)
        \<and> (\<forall>day \<in> set days. \<not> toPrimitiveThrows (property ''date'' day)
              \<and> (\<exists>es. property ''entries'' day = Parsed (JArr es) \<and> JNull \<notin> set es))
        \<and> dateOf B (property ''selectedMonday'' data) \<noteq> InvalidDate)
      \<longrightarrow> fst (handleFileSelect B (Some content) s) = False)
   \<and> (\<forall>data. jsonParse B content = Some data
          \<and> (\<not> truthy (property ''selectedMonday'' data)
             \<or> (\<forall>days. property ''weekData'' data \<noteq> Parsed (JArr days)))
        \<longrightarrow> handleFileSelect B (Some content) s = (True, Ok s))"
proof (intro conjI allI impI)
  assume "fst (handleFileSelect B (Some content) s) = False"
  then show "\<exists>data days. jsonParse B content = Some data
        \<and> truthy (property ''selectedMonday'' data)
        \<and> property ''weekData'' data = Parsed (JArr days)
        \<and> \<not> toPrimitiveThrows (property ''selectedMonday'' data)
        \<and> (\<forall>day \<in> set days. \<not> toPrimitiveThrows (property ''date'' day)
              \<and> (\<exists>es. property ''entries'' day = Parsed (JArr es) \<and> JNull \<notin> set es))"
    using handleFileSelect_alert_iff [of B content s] by blast
next
  assume "\<exists>data days. jsonParse B content = Some data
        \<and> truthy (property ''selectedMonday'' data)
        \<and> property ''weekData'' data = Parsed (JArr days)
        \<and> \<not> toPrimitiveThrows (property ''selectedMonday'' data)
        \<and> (\<forall>day \<in> set days. \<not> toPrimitiveThrows (property ''date'' day)
              \<and> (\<exists>es. property ''entries'' day = Parsed (JArr es) \<and> JNull \<notin> set es))
        \<and> dateOf B (property ''selectedMonday'' data) \<noteq> InvalidDate"
  then show "fst (handleFileSelect B (Some content) s) = False"
    by (simp only: handleFileSelect_alert_iff simp_thms)
next
  fix data
  assume "jsonParse B content = Some data
          \<and> (\<not> truthy (property ''selectedMonday'' data)
             \<or> (\<forall>days. property ''weekData'' data \<noteq> Parsed (JArr days)))"
  then show "handleFileSelect B (Some content) s = (True, Ok s)"
    by (intro handleFileSelect_invalid_unchanged) blast
qed

text \<open>
  The theorem at two files: the export of the sample week, with one day record, is
  accepted; the text of a stored week, an array, has no \<open>selectedMonday\<close> and is rejected.
\<close>

theorem handleFileSelect_accepts_iff_witness:
  "jsonParse sampleEngine (fileText ''8'') = Some (fileDocument (JNum (Num (D 8))))
   \<and> truthy (property ''selectedMonday'' (fileDocument (JNum (Num (D 8)))))
   \<and> property ''weekData'' (fileDocument (JNum (Num (D 8)))) = Parsed (weekDocument (JNum (Num (D 8))))
   \<and> length (case weekDocument (JNum (Num (D 8))) of JArr days \<Rightarrow> days | _ \<Rightarrow> []) = 1
   \<and> dateOf sampleEngine (property ''selectedMonday'' (fileDocument (JNum (Num (D 8)))))
       = Date sampleMonday
   \<and> fst (handleFileSelect sampleEngine (Some (fileText ''8'')) freshState) = False
   \<and> jsonParse sampleEngine noTotalText = Some noTotalDocument
   \<and> \<not> truthy (property ''selectedMonday'' noTotalDocument)
   \<and> handleFileSelect sampleEngine (Some noTotalText) sampleState = (True, Ok sampleState)"
proof -
  let ?doc = "fileDocument (JNum (Num (D 8)))"
  let ?day = "JObj [(''date'', JStr sampleISO),
                 (''entries'', JArr [JObj [(''startTime'', JStr ''09:00''),
                                           (''endTime'', JStr ''17:00''),
                                           (''hours'', JNum (Num 0))]]),
                 (''totalHours'', JNum (Num (D 8))),
                 (''useDirectHours'', JBool False)]"
  have parse: "jsonParse sampleEngine (fileText ''8'') = Some ?doc"
    by (rule sample_file_texts)
  have doc: "truthy (property ''selectedMonday'' ?doc)"
    "property ''weekData'' ?doc = Parsed (JArr [?day])"
    "\<not> toPrimitiveThrows (property ''selectedMonday'' ?doc)"
    "dateOf sampleEngine (property ''selectedMonday'' ?doc) = Date sampleMonday"
    by (simp_all add: fileDocument_def weekDocument_def sample_engine_dates)
  have day: "\<forall>day \<in> set [?day]. \<not> toPrimitiveThrows (property ''date'' day)
      \<and> (\<exists>es. property ''entries'' day = Parsed (JArr es) \<and> JNull \<notin> set es)"
    by simp
  have "\<exists>data days. jsonParse sampleEngine (fileText ''8'') = Some data
        \<and> truthy (property ''selectedMonday'' data)
        \<and> property ''weekData'' data = Parsed (JArr days)
        \<and> \<not> toPrimitiveThrows (property ''selectedMonday'' data)
        \<and> (\<forall>day \<in> set days. \<not> toPrimitiveThrows (property ''date'' day)
              \<and> (\<exists>es. property ''entries'' day = Parsed (JArr es) \<and> JNull \<notin> set es))
        \<and> dateOf sampleEngine (property ''selectedMonday'' data) \<noteq> InvalidDate"
    using parse doc day by (intro exI [of _ ?doc] exI [of _ "[?day]"]) simp
  then have accepted: "fst (handleFileSelect sampleEngine (Some (fileText ''8'')) freshState) = False"
    using handleFileSelect_accepts_iff [of sampleEngine "fileText ''8''" freshState] by blast
  have stored: "jsonParse sampleEngine noTotalText = Some noTotalDocument"
    by (simp add: sampleEngine_def noDayFile_def noDateFile_def noTotalText_def)
  have array: "\<not> truthy (property ''selectedMonday'' noTotalDocument)"
    by (simp add: noTotalDocument_def)
  then have rejected: "handleFileSelect sampleEngine (Some noTotalText) sampleState = (True, Ok sampleState)"
    using handleFileSelect_accepts_iff [of sampleEngine noTotalText sampleState] stored by blast
  show ?thesis
    using parse doc accepted stored array rejected by (simp add: weekDocument_def)
qed

text \<open>
  C4 at a stored week whose day has no \<open>totalHours\<close>,
  \<open>[{"date":"2024-06-03T00:00:00.000Z","entries":[]}]\<close>: the load effect gives the day
  the total \<open>NaN\<close>, not 0. The mode is defaulted to time-range; the \<open>?? 0\<close> behind
  \<open>parseFloat\<close> does nothing, since \<open>parseFloat\<close> of a missing value is \<open>NaN\<close> and not
  \<open>null\<close> or \<open>undefined\<close>.
\<close>

theorem loadEffect_missing_total_is_NaN:
  "jsonParse sampleEngine noTotalText
     = Some (JArr [JObj [(''date'', JStr ''2024-06-03T00:00:00.000Z''), (''entries'', JArr [])]])
   \<and> loadEffect sampleEngine noTotalState
     = Ok (noTotalState\<lparr>weekData :=
         [\<lparr>date = Date sampleMonday, entries = [], totalHours = Some NaN,
           useDirectHours = False\<rparr>]\<rparr>)"
  by (simp add: sampleEngine_def noTotalDocument_def sampleISO_def noTotalState_def
      noDayFile_def noDateFile_def
      sampleState_def loadEffect_def getLocalStorageKey_def TIMESHEET_PREFIX_def
      getLocalStorage_def noTotalText_def parseStoredWeek_def sanitizeDay_def
      extraProperties_def storedEntries_def storedMode_def parseFloatValue_def newDate_def)

text \<open>
  C5 at the file \<open>{"selectedMonday":"not a date","weekData":[]}\<close>: the handler sets the
  selected Monday to the Invalid Date and the week to the empty array, and then shows the
  alert, because the key of the Invalid Date cannot be computed. The store is as before.
\<close>

theorem handleFileSelect_alert_after_change:
  "jsonParse sampleEngine noDateFile
     = Some (JObj [(''selectedMonday'', JStr ''not a date''), (''weekData'', JArr [])])
   \<and> handleFileSelect sampleEngine (Some noDateFile) sampleState
     = (True, Ok (sampleState\<lparr>selectedMonday := InvalidDate, weekData := []\<rparr>))
   \<and> selectedMonday sampleState = Date sampleMonday
   \<and> weekData sampleState = [sampleDay]"
  by (simp add: sampleEngine_def noDateDocument_def noDateFile_def noDayFile_def sampleISO_def
      sampleState_def handleFileSelect_def getLocalStorageKey_def newDate_def)

section \<open>Claims about clear-all\<close>

text \<open>
  C8, as stated, at one state (wage 20, one stored week, on Wednesday 2024-06-05): once
  the effects that follow \<open>clearAll\<close> have run, the store holds the week key
  \<open>timesheet-data-2024-06-03\<close> with the fresh week, and the wage key with the wage 0.
\<close>

theorem clearAll_stores_week_counterexample:
  "clearAllRendered sampleEngine sampleState
     = Ok \<lparr>selectedMonday = Date sampleMonday, weekData = newWeek sampleEngine (Date sampleMonday),
           hourlyWage = Num 0,
           localStorage =
             [(''timesheet-hourly-wage'', numberToString sampleEngine (Num 0)),
              (''timesheet-data-2024-06-03'',
               jsonStringify sampleEngine
                 (weekToJSON sampleEngine (newWeek sampleEngine (Date sampleMonday))))]\<rparr>
   \<and> startsWith ''timesheet-data-2024-06-03'' TIMESHEET_PREFIX"
proof -
  have key: "TIMESHEET_PREFIX @ split CHR ''T'' (isoString sampleEngine sampleMonday) ! 0 = ''timesheet-data-2024-06-03''"
    by (simp add: sampleEngine_def sampleISO_def TIMESHEET_PREFIX_def)
  have cleared: "clearedStorage (localStorage sampleState) = []"
    by (simp add: clearedStorage_def sampleState_def startsWith_def TIMESHEET_PREFIX_def WAGE_KEY_def)
  have wage: "hourlyWage sampleState \<noteq> Num 0"
    by (simp add: sampleState_def)
  show ?thesis
    unfolding clearAllRendered_eq [OF sample_today] key cleared
    using wage
    by (simp add: setLocalStorage_def removeLocalStorage_def WAGE_KEY_def startsWith_def TIMESHEET_PREFIX_def)
qed

text \<open>
  C8, amended. When \<open>clearAll\<close> returns, no key with the prefix \<open>timesheet-data-\<close> and no
  wage key is in the store, the wage in memory is 0, and the week is the default one: 7
  days from the Monday of the present week, each with one blank entry, total 0 and
  time-range mode. The effects that follow then store this week under the key of its
  Monday, the only week key of the store, and store the wage 0 if the wage was not 0
  before; the state in memory stays the same. (The effects need the key of the Monday:
  they throw if \<open>getMonday\<close> has returned the Invalid Date, \<open>clearAllRendered_invalid\<close>.)
\<close>

theorem clearAll_then_effects:
  "(\<forall>k \<in> set (map fst (localStorage (clearAll B s))). \<not> startsWith k TIMESHEET_PREFIX)
   \<and> getLocalStorage (localStorage (clearAll B s)) WAGE_KEY = None
   \<and> hourlyWage (clearAll B s) = Num 0
   \<and> selectedMonday (clearAll B s) = getMonday B (Date (currentTime B))
   \<and> weekData (clearAll B s) = newWeek B (getMonday B (Date (currentTime B)))
   \<and> length (weekData (clearAll B s)) = 7
   \<and> map date (weekData (clearAll B s))
       = map (dayOfWeekDate B (getMonday B (Date (currentTime B)))) [0..<7]
   \<and> (\<forall>d \<in> set (weekData (clearAll B s)).
         entries d = [emptyEntry] \<and> totalHours d = Some (Num 0) \<and> \<not> useDirectHours d)
   \<and> (getMonday B (Date (currentTime B)) \<noteq> InvalidDate \<longrightarrow>
       (\<exists>s' key. clearAllRendered B s = Ok s'
         \<and> getLocalStorageKey B (selectedMonday (clearAll B s)) = Some key
         \<and> startsWith key TIMESHEET_PREFIX
         \<and> getLocalStorage (localStorage s') key
             = Some (jsonStringify B (weekToJSON B (weekData (clearAll B s))))
         \<and> (\<forall>k \<in> set (map fst (localStorage s')). startsWith k TIMESHEET_PREFIX \<longrightarrow> k = key)
         \<and> getLocalStorage (localStorage s') WAGE_KEY
             = (if hourlyWage s \<noteq> Num 0 then Some (numberToString B (Num 0)) else None)
         \<and> selectedMonday s' = selectedMonday (clearAll B s)
         \<and> weekData s' = weekData (clearAll B s)
         \<and> hourlyWage s' = Num 0))"
proof -
  define monday where "monday = getMonday B (Date (currentTime B))"
  have cleared: "clearAll B s = \<lparr>selectedMonday = monday, weekData = newWeek B monday,
      hourlyWage = Num 0, localStorage = clearedStorage (localStorage s)\<rparr>"
    by (simp add: clearAll_eq monday_def)
  have a: "\<forall>k \<in> set (map fst (clearedStorage (localStorage s))). \<not> startsWith k TIMESHEET_PREFIX"
    using keys_cleared by blast
  have b: "getLocalStorage (clearedStorage (localStorage s)) WAGE_KEY = None"
    by (rule getLocalStorage_cleared_wage)
  have c: "\<forall>d \<in> set (newWeek B monday).
      entries d = [emptyEntry] \<and> totalHours d = Some (Num 0) \<and> \<not> useDirectHours d"
    using newWeek_days by blast
  have d: "map date (newWeek B monday) = map (dayOfWeekDate B monday) [0..<7]"
    by (simp add: newWeek_def)
  have effects: "\<exists>s' key. clearAllRendered B s = Ok s'
         \<and> getLocalStorageKey B monday = Some key
         \<and> startsWith key TIMESHEET_PREFIX
         \<and> getLocalStorage (localStorage s') key
             = Some (jsonStringify B (weekToJSON B (newWeek B monday)))
         \<and> (\<forall>k \<in> set (map fst (localStorage s')). startsWith k TIMESHEET_PREFIX \<longrightarrow> k = key)
         \<and> getLocalStorage (localStorage s') WAGE_KEY
             = (if hourlyWage s \<noteq> Num 0 then Some (numberToString B (Num 0)) else None)
         \<and> selectedMonday s' = monday
         \<and> weekData s' = newWeek B monday
         \<and> hourlyWage s' = Num 0"
    if valid: "monday \<noteq> InvalidDate"
  proof -
    from valid obtain m where m: "monday = Date m"
      by (cases monday) auto
    define key where "key = TIMESHEET_PREFIX @ split CHR ''T'' (isoString B m) ! 0"
    define wtext where "wtext = jsonStringify B (weekToJSON B (newWeek B (Date m)))"
    define st where "st = setLocalStorage key wtext (clearedStorage (localStorage s))"
    define final where "final = setLocalStorage key wtext
        (if hourlyWage s \<noteq> Num 0 then setLocalStorage WAGE_KEY (numberToString B (Num 0)) st else st)"
    have today: "getMonday B (Date (currentTime B)) = Date m"
      using m by (simp add: monday_def)
    have rendered: "clearAllRendered B s = Ok \<lparr>selectedMonday = Date m, weekData = newWeek B (Date m),
        hourlyWage = Num 0, localStorage = final\<rparr>"
      unfolding final_def st_def wtext_def key_def using today by (rule clearAllRendered_eq)
    have prefix: "startsWith key TIMESHEET_PREFIX"
      by (simp add: key_def startsWith_prefix)
    then have differ: "key \<noteq> WAGE_KEY"
      using wage_key_no_prefix by auto
    have e: "getLocalStorage final key = Some wtext"
      by (simp add: final_def getLocalStorage_set_same)
    have f: "\<forall>k \<in> set (map fst final). startsWith k TIMESHEET_PREFIX \<longrightarrow> k = key"
      using a wage_key_no_prefix
      by (auto simp: final_def st_def keys_set simp del: set_map)
    have g: "getLocalStorage final WAGE_KEY
        = (if hourlyWage s \<noteq> Num 0 then Some (numberToString B (Num 0)) else None)"
      using differ b
      by (simp add: final_def st_def getLocalStorage_set_other getLocalStorage_set_same)
    have h: "getLocalStorageKey B (Date m) = Some key"
      by (simp add: getLocalStorageKey_Date key_def)
    show ?thesis
      unfolding rendered m
      using e f g h prefix by (simp add: wtext_def)
  qed
  show ?thesis
    unfolding cleared monday_def [symmetric]
    using a b c d effects by (simp add: length_newWeek)
qed

theorem clearAll_then_effects_witness:
  "getMonday sampleEngine (Date (currentTime sampleEngine)) = Date sampleMonday
   \<and> localStorage (clearAll sampleEngine sampleState) = []
   \<and> hourlyWage (clearAll sampleEngine sampleState) = Num 0
   \<and> selectedMonday (clearAll sampleEngine sampleState) = Date sampleMonday
   \<and> length (weekData (clearAll sampleEngine sampleState)) = 7
   \<and> getLocalStorageKey sampleEngine (selectedMonday (clearAll sampleEngine sampleState))
       = Some ''timesheet-data-2024-06-03''"
proof -
  have cleared: "clearedStorage (localStorage sampleState) = []"
    by (simp add: clearedStorage_def sampleState_def startsWith_def TIMESHEET_PREFIX_def
        WAGE_KEY_def)
  have key: "getLocalStorageKey sampleEngine (Date sampleMonday) = Some ''timesheet-data-2024-06-03''"
    by (simp add: getLocalStorageKey_Date sampleEngine_def sampleISO_def TIMESHEET_PREFIX_def)
  show ?thesis
    using clearAll_then_effects [of sampleEngine sampleState] cleared key
    by (simp add: clearAll_eq sample_today)
qed

section \<open>Claims about export followed by import\<close>

text \<open>
  C7, as stated, at one state: the week of 2024-06-03 whose Monday has the total \<open>NaN\<close>
  (as it is after the load of a stored week without total). The export writes
  \<open>"totalHours": null\<close>; the import of this file into a fresh session is accepted, and it
  copies the \<open>null\<close>: the total of the imported day is \<open>null\<close>, which is no number, so
  the imported week is no week record with the same totals.
\<close>

theorem export_import_nan_counterexample:
  "map totalHours (weekData nanState) = [Some NaN]
   \<and> downloadJSON sampleEngine nanState = fileText ''null''
   \<and> jsonParse sampleEngine (fileText ''null'') = Some (fileDocument JNull)
   \<and> map (property ''totalHours'') (case weekDocument JNull of JArr days \<Rightarrow> days | _ \<Rightarrow> [])
       = [Parsed JNull]
   \<and> importedTotal (Parsed JNull) = Foreign
   \<and> handleFileSelect sampleEngine (Some (downloadJSON sampleEngine nanState)) freshState
       = (False, Foreign)"
proof -
  have "handleFileSelect sampleEngine (Some (fileText ''null'')) freshState = (False, Foreign)"
    by (simp add: handleFileSelect_def sample_file_texts fileDocument_def weekDocument_def
        sample_engine_dates newDate_def importedDay_def importedEntry_def importedTime_def
        importedHours_def extraProperties_def importedTotal_def importedMode_def
        getLocalStorageKey_def)
  moreover have "map totalHours (weekData nanState) = [Some NaN]"
    by (simp add: nanState_def sampleState_def nanDay_def)
  ultimately show ?thesis
    by (simp add: sample_downloads sample_file_texts weekDocument_def importedTotal_def)
qed

text \<open>
  The export of a state whose Monday is the Invalid Date writes \<open>"selectedMonday": null\<close>,
  and the import rejects this file.
\<close>

lemma export_import_invalid_monday:
  assumes "selectedMonday s = InvalidDate"
    and "jsonParse B (downloadJSON B s) = Some (exportDocument B s)"
  shows "handleFileSelect B (Some (downloadJSON B s)) s0 = (True, Ok s0)"
  using assms by (simp add: handleFileSelect_def exportDocument_def dateToJSON_def)

text \<open>
  C7, amended. For every week state whose Monday is a valid date and whose day totals
  are finite numbers (not \<open>NaN\<close>, not an infinity, and not the negative zero, which is
  exported as \<open>0\<close>), the import of the exported document, into any state of the
  component, is accepted and yields the same Monday and the same total hours for every
  day, both when the handler returns and after the effects that follow it. The built-ins
  are taken to read back what they have written: \<open>JSON.parse\<close> the exported text and the
  stored text, \<open>new Date\<close> the ISO string of the Monday, and these texts are not empty.
\<close>

theorem export_import_round_trip:
  assumes monday: "selectedMonday s = Date t"
    and numeric: "\<forall>d \<in> set (weekData s). \<exists>r. totalHours d = Some (Num r)"
    and iso: "isoString B t \<noteq> []"
    and redate: "dateOf B (Parsed (JStr (isoString B t))) = Date t"
    and exported: "jsonParse B (downloadJSON B s) = Some (exportDocument B s)"
    and stored: "jsonStringify B (weekToJSON B (map (reimportedDay B) (weekData s))) \<noteq> []"
    and reparse: "jsonParse B (jsonStringify B (weekToJSON B (map (reimportedDay B) (weekData s))))
        = Some (weekToJSON B (map (reimportedDay B) (weekData s)))"
  shows "\<exists>s1 s2. handleFileSelect B (Some (downloadJSON B s)) s0 = (False, Ok s1)
      \<and> selectedMonday s1 = selectedMonday s
      \<and> map totalHours (weekData s1) = map totalHours (weekData s)
      \<and> effectsAfter B False s1 = Ok s2
      \<and> selectedMonday s2 = selectedMonday s
      \<and> map totalHours (weekData s2) = map totalHours (weekData s)"
proof -
  define s1 where "s1 = s0\<lparr>selectedMonday := Date t,
      weekData := map (reimportedDay B) (weekData s),
      localStorage :=
        setLocalStorage (TIMESHEET_PREFIX @ split CHR ''T'' (isoString B t) ! 0)
          (jsonStringify B (weekToJSON B (map (reimportedDay B) (weekData s))))
          (localStorage s0)\<rparr>"
  have handler: "handleFileSelect B (Some (downloadJSON B s)) s0 = (False, Ok s1)"
    unfolding s1_def using monday exported iso redate numeric by (rule handleFileSelect_exported)
  have "map totalHours (map (reimportedDay B) (weekData s)) = map totalHours (weekData s)"
    unfolding map_map
  proof (rule map_cong [OF refl])
    fix d
    assume "d \<in> set (weekData s)"
    then show "(totalHours \<circ> reimportedDay B) d = totalHours d"
      by (simp add: totalHours_reimportedDay)
  qed
  then have first: "selectedMonday s1 = selectedMonday s"
    "map totalHours (weekData s1) = map totalHours (weekData s)"
    by (simp_all add: s1_def monday)
  obtain s2 where "effectsAfter B False s1 = Ok s2" "selectedMonday s2 = Date t"
    "map totalHours (weekData s2) = map totalHours (weekData s)"
    using effectsAfter_import [OF numeric stored reparse, of t s0] unfolding s1_def by blast
  then show ?thesis
    using handler first monday by auto
qed

theorem export_import_round_trip_witness:
  "\<exists>s1 s2. handleFileSelect sampleEngine (Some (downloadJSON sampleEngine sampleState)) freshState
        = (False, Ok s1)
      \<and> selectedMonday s1 = Date sampleMonday
      \<and> map totalHours (weekData s1) = [Some (Num (D 8))]
      \<and> effectsAfter sampleEngine False s1 = Ok s2
      \<and> selectedMonday s2 = Date sampleMonday
      \<and> map totalHours (weekData s2) = [Some (Num (D 8))]"
proof -
  have monday: "selectedMonday sampleState = Date sampleMonday"
    by (simp add: sampleState_def)
  have numeric: "\<forall>d \<in> set (weekData sampleState). \<exists>r. totalHours d = Some (Num r)"
    by (simp add: sampleState_def sampleDay_def)
  have iso: "isoString sampleEngine sampleMonday \<noteq> []"
    and redate: "dateOf sampleEngine (Parsed (JStr (isoString sampleEngine sampleMonday))) = Date sampleMonday"
    by (simp_all add: sample_engine_dates)
  have exported: "jsonParse sampleEngine (downloadJSON sampleEngine sampleState)
      = Some (exportDocument sampleEngine sampleState)"
    by (simp add: sample_downloads sample_exports sample_file_texts)
  have week: "weekToJSON sampleEngine (map (reimportedDay sampleEngine) (weekData sampleState))
      = weekDocument (JNum (Num (D 8)))"
    by (simp add: sampleState_def sample_reimported sample_exports)
  have stringify: "jsonStringify sampleEngine (weekDocument (JNum (Num (D 8)))) = weekText"
    by (simp add: sampleEngine_def weekDocument_def)
  have stored: "jsonStringify sampleEngine
      (weekToJSON sampleEngine (map (reimportedDay sampleEngine) (weekData sampleState))) \<noteq> []"
    unfolding week stringify by (simp add: weekText_def)
  have reparse: "jsonParse sampleEngine (jsonStringify sampleEngine
      (weekToJSON sampleEngine (map (reimportedDay sampleEngine) (weekData sampleState))))
      = Some (weekToJSON sampleEngine (map (reimportedDay sampleEngine) (weekData sampleState)))"
    unfolding week stringify by (simp add: sample_file_texts)
  have totals: "map totalHours (weekData sampleState) = [Some (Num (D 8))]"
    by (simp add: sampleState_def sampleDay_def)
  show ?thesis
    using export_import_round_trip [OF monday numeric iso redate exported stored reparse, of freshState]
    unfolding monday totals .
qed

end
